theory Spec2Isabelle
  imports Main "HOL-Library.AList"
begin

section \<open>The optimization execution engine\<close>

text \<open>
  A shallow embedding of \<^verbatim>\<open>src/services/execution_engine.py\<close>, with the two
  enumerations it takes from \<^verbatim>\<open>src/models/optimization.py\<close> and the gateway methods it
  calls on \<^verbatim>\<open>CloudProviderService\<close> (\<^verbatim>\<open>src/services/cloud_providers.py\<close>).

  Conventions of the embedding.
  \<^item> A Python \<^verbatim>\<open>dict\<close> with string keys is an association list in insertion order;
    \<^verbatim>\<open>d[k] = v\<close> is \<open>AList.update\<close>, \<^verbatim>\<open>d.get(k)\<close> is \<open>map_of\<close>, and a dict is
    truthy when it is not empty.
  \<^item> An exception is a value of type \<open>exc\<close>; a function that may raise returns
    \<open>exc + 'a\<close>, with \<open>Inl\<close> for the raised exception.
  \<^item> Mutation of the step, the context and the execution record is state passing: a
    function returns the objects it has mutated.
  \<^item> The gateway is a parameter. Each of its methods takes the calls made so far, so
    that a method may answer differently from one call to the next, and either
    returns or raises. The engine appends every call it makes to \<open>calls\<close>.
  \<^item> \<^verbatim>\<open>log_event\<close> appends the event type and the first identifier of its data to
    \<open>events\<close>.
  \<^item> Wall-clock fields (\<^verbatim>\<open>started_at\<close>, \<^verbatim>\<open>completed_at\<close>, the durations, the
    \<^verbatim>\<open>optimized_at\<close> tag and the \<^verbatim>\<open>backup_timestamp\<close> of a backup) and the free-text
    \<^verbatim>\<open>description\<close> of a step are left out: no function of the engine branches on
    them.
\<close>

subsection \<open>Values, exceptions and enumerations\<close>

datatype py_value =
    VNone
  | VBool bool
  | VInt int
  | VStr string
  | VList "py_value list"
  | VDict "(string \<times> py_value) list"
  | VObject string

text \<open>\<open>VObject t\<close> is an object of a class \<open>t\<close> that is no container and that
  \<^verbatim>\<open>json\<close> cannot serialise, such as a \<^verbatim>\<open>datetime\<close>.\<close>

type_synonym py_dict = "(string \<times> py_value) list"

datatype exc =
    Exception string
  | ValueError string
  | TypeError string
  | AttributeError string

fun str_exc :: "exc \<Rightarrow> string" where
  "str_exc (Exception m) = m"
| "str_exc (ValueError m) = m"
| "str_exc (TypeError m) = m"
| "str_exc (AttributeError m) = m"

datatype ExecutionStatus = PENDING | RUNNING | COMPLETED | FAILED | ROLLED_BACK | CANCELLED

datatype ExecutionPhase =
  PREPARATION | VALIDATION | BACKUP | EXECUTION | VERIFICATION | COMPLETION | ROLLBACK

text \<open>\<^verbatim>\<open>OptimizationStatus\<close> of \<^verbatim>\<open>models/optimization.py\<close>: it has eight members, and
  none of them is called \<^verbatim>\<open>ROLLED_BACK\<close>.\<close>

datatype OptimizationStatus =
    OS_DISCOVERED | OS_PENDING_APPROVAL | OS_APPROVED | OS_EXECUTING
  | OS_COMPLETED | OS_FAILED | OS_CANCELLED | OS_EXPIRED

text \<open>Attribute access \<^verbatim>\<open>OptimizationStatus.<name>\<close>: a name that is not a member raises
  \<^verbatim>\<open>AttributeError\<close>.\<close>

definition OptimizationStatus_attr :: "string \<Rightarrow> exc + OptimizationStatus" where
  "OptimizationStatus_attr nm =
     (case map_of
        [(''DISCOVERED'', OS_DISCOVERED), (''PENDING_APPROVAL'', OS_PENDING_APPROVAL),
         (''APPROVED'', OS_APPROVED), (''EXECUTING'', OS_EXECUTING),
         (''COMPLETED'', OS_COMPLETED), (''FAILED'', OS_FAILED),
         (''CANCELLED'', OS_CANCELLED), (''EXPIRED'', OS_EXPIRED)] nm of
        Some s \<Rightarrow> Inr s
      | None \<Rightarrow> Inl (AttributeError nm))"

datatype OptimizationType =
    RIGHTSIZING | SCHEDULING | RESERVED_INSTANCES | SPOT_INSTANCES
  | STORAGE_OPTIMIZATION | UNUSED_RESOURCES

fun OptimizationType_value :: "OptimizationType \<Rightarrow> string" where
  "OptimizationType_value RIGHTSIZING = ''rightsizing''"
| "OptimizationType_value SCHEDULING = ''scheduling''"
| "OptimizationType_value RESERVED_INSTANCES = ''reserved_instances''"
| "OptimizationType_value SPOT_INSTANCES = ''spot_instances''"
| "OptimizationType_value STORAGE_OPTIMIZATION = ''storage_optimization''"
| "OptimizationType_value UNUSED_RESOURCES = ''unused_resources''"

datatype CloudProvider = AWS | AZURE | GCP

fun CloudProvider_value :: "CloudProvider \<Rightarrow> string" where
  "CloudProvider_value AWS = ''aws''"
| "CloudProvider_value AZURE = ''azure''"
| "CloudProvider_value GCP = ''gcp''"

subsection \<open>Records of the data model\<close>

record OptimizationOpportunity =
  opp_id :: string
  opp_resource_id :: string
  opp_optimization_type :: OptimizationType
  opp_cloud_provider :: CloudProvider
  opp_region :: string
  estimated_execution_time :: int

record OptimizationExecution =
  exec_id :: string
  exec_opportunity_id :: string
  exec_status :: OptimizationStatus
  exec_error_message :: "string option"
  rollback_required :: "bool option"
  rollback_completed :: "bool option"
  executed_by :: string

record ExecutionStep =
  step_id :: string
  name :: string
  phase :: ExecutionPhase
  order :: int
  timeout_minutes :: int
  retry_count :: int
  max_retries :: int
  status :: ExecutionStatus
  error_message :: "string option"
  rollback_steps :: "string list"
  metadata :: py_dict

record ExecutionContext =
  opportunity_id :: string
  execution_id :: string
  resource_id :: string
  cloud_provider :: string
  region :: string
  optimization_type :: string
  current_config :: py_dict
  target_config :: py_dict
  backup_data :: py_dict
  execution_log :: "(string \<times> string \<times> ExecutionStatus) list"
  rollback_data :: py_dict

text \<open>The dataclass constructor of \<^verbatim>\<open>ExecutionStep\<close> with its defaults:
  \<^verbatim>\<open>retry_count = 0\<close>, \<^verbatim>\<open>max_retries = 3\<close>, \<^verbatim>\<open>status = PENDING\<close>.\<close>

definition new_step ::
  "string \<Rightarrow> string \<Rightarrow> ExecutionPhase \<Rightarrow> int \<Rightarrow> int \<Rightarrow> string list \<Rightarrow> ExecutionStep" where
  "new_step i n p ord tmo rb =
     \<lparr>step_id = i, name = n, phase = p, order = ord, timeout_minutes = tmo,
      retry_count = 0, max_retries = 3, status = PENDING, error_message = None,
      rollback_steps = rb, metadata = []\<rparr>"

subsection \<open>The gateway and the observable world\<close>

datatype gw_call =
    ValidateConnection string
  | ResourceExists string string
  | GetResourceConfig string string
  | CreateResourceBackup string string
  | RestoreResourceFromBackup string string py_dict
  | UpdateResourceTags string string py_dict

record gateway =
  validate_connection :: "gw_call list \<Rightarrow> string \<Rightarrow> exc + bool"
  resource_exists :: "gw_call list \<Rightarrow> string \<Rightarrow> string \<Rightarrow> exc + bool"
  get_resource_config :: "gw_call list \<Rightarrow> string \<Rightarrow> string \<Rightarrow> exc + py_dict"
  create_resource_backup :: "gw_call list \<Rightarrow> string \<Rightarrow> string \<Rightarrow> exc + py_dict"
  restore_resource_from_backup ::
    "gw_call list \<Rightarrow> string \<Rightarrow> string \<Rightarrow> py_dict \<Rightarrow> exc + unit"
  update_resource_tags :: "gw_call list \<Rightarrow> string \<Rightarrow> string \<Rightarrow> py_dict \<Rightarrow> exc + unit"

text \<open>
  \<open>calls\<close> is the trace of gateway calls, \<open>events\<close> the trace of \<^verbatim>\<open>log_event\<close>.
  \<open>sleeps\<close> holds the step as it is during each \<^verbatim>\<open>await asyncio.sleep(5)\<close>, the
  point where \<^verbatim>\<open>_execute_step\<close> hands control back to the event loop between two
  attempts. \<open>frames\<close> is the greatest number of \<^verbatim>\<open>_execute_step\<close> frames that have
  been active at the same time.
\<close>

record world =
  calls :: "gw_call list"
  events :: "(string \<times> string) list"
  sleeps :: "ExecutionStep list"
  frames :: nat

definition world0 :: world where
  "world0 = \<lparr>calls = [], events = [], sleeps = [], frames = 0\<rparr>"

definition log_event :: "string \<Rightarrow> string \<Rightarrow> world \<Rightarrow> world" where
  "log_event ty ident w = w\<lparr>events := events w @ [(ty, ident)]\<rparr>"

definition called :: "gw_call \<Rightarrow> world \<Rightarrow> world" where
  "called c w = w\<lparr>calls := calls w @ [c]\<rparr>"

fun is_restore :: "gw_call \<Rightarrow> bool" where
  "is_restore (RestoreResourceFromBackup r p b) = True"
| "is_restore c = False"

text \<open>The gateway of \<^verbatim>\<open>cloud_providers.py\<close> for a provider whose client is connected:
  every method returns, none raises. Its backup is given without the
  \<^verbatim>\<open>backup_timestamp\<close> entry, so the \<^verbatim>\<open>backup_size\<close> that a step records is the length of
  the backup without that entry.\<close>

definition CloudProviderService :: gateway where
  "CloudProviderService =
     \<lparr>validate_connection = (\<lambda>h p. Inr (p \<in> {''aws'', ''azure'', ''gcp''})),
      resource_exists = (\<lambda>h r p. Inr (p \<in> {''aws'', ''azure'', ''gcp''})),
      get_resource_config = (\<lambda>h r p. Inr
         [(''id'', VStr r), (''provider'', VStr p), (''status'', VStr ''running''),
          (''instance_type'', VStr ''t3.medium''), (''prerequisites'', VList [])]),
      create_resource_backup = (\<lambda>h r p. Inr
         [(''resource_id'', VStr r),
          (''configuration'', VDict
             [(''id'', VStr r), (''provider'', VStr p), (''status'', VStr ''running''),
              (''instance_type'', VStr ''t3.medium''), (''prerequisites'', VList [])])]),
      restore_resource_from_backup = (\<lambda>h r p b. Inr ()),
      update_resource_tags = (\<lambda>h r p t. Inr ())\<rparr>"

subsection \<open>Target configuration\<close>

definition calculate_optimal_instance_size :: "py_dict \<Rightarrow> OptimizationOpportunity \<Rightarrow> string" where
  "calculate_optimal_instance_size cur_config opportunity = ''t3.medium''"

definition calculate_optimal_storage_class :: "py_dict \<Rightarrow> OptimizationOpportunity \<Rightarrow> string" where
  "calculate_optimal_storage_class cur_config opportunity = ''STANDARD_IA''"

text \<open>
  \<^verbatim>\<open>_calculate_target_config\<close> works on a copy of the dict it is given. To make the
  copy visible the dicts live in a store: \<open>cells\<close> maps an address to the dict at that
  address and \<open>next_addr\<close> is the next free address. \<open>dict_copy\<close> is \<^verbatim>\<open>d.copy()\<close>,
  \<open>dict_setitem\<close> is \<^verbatim>\<open>d[k] = v\<close> on the dict at an address.
\<close>

record store =
  cells :: "nat \<Rightarrow> py_dict option"
  next_addr :: nat

definition dict_copy :: "store \<Rightarrow> nat \<Rightarrow> (nat \<times> store) option" where
  "dict_copy st a =
     (case cells st a of
        None \<Rightarrow> None
      | Some d \<Rightarrow>
          Some (next_addr st,
                st\<lparr>cells := (cells st)(next_addr st \<mapsto> d), next_addr := Suc (next_addr st)\<rparr>))"

definition dict_setitem :: "store \<Rightarrow> nat \<Rightarrow> string \<Rightarrow> py_value \<Rightarrow> store" where
  "dict_setitem st a k v =
     (case cells st a of
        None \<Rightarrow> st
      | Some d \<Rightarrow> st\<lparr>cells := (cells st)(a \<mapsto> AList.update k v d)\<rparr>)"

definition scheduling_config :: py_value where
  "scheduling_config =
     VDict [(''start_schedule'', VStr ''0 8 * * 1-5''),
            (''stop_schedule'', VStr ''0 18 * * 1-5''),
            (''timezone'', VStr ''UTC'')]"

text \<open>The function on the store: it returns the address of the target dict. An address
  that holds no dict gives \<open>None\<close>; a Python reference always holds one.\<close>

definition calculate_target_config_at ::
  "store \<Rightarrow> OptimizationOpportunity \<Rightarrow> nat \<Rightarrow> (nat \<times> store) option" where
  "calculate_target_config_at st opportunity cur_config =
     (case dict_copy st cur_config of
        None \<Rightarrow> None
      | Some (tgt_config, st1) \<Rightarrow>
          (case cells st cur_config of
             None \<Rightarrow> None
           | Some cur \<Rightarrow>
               if OptimizationType_value (opp_optimization_type opportunity) = ''rightsizing''
               then Some (tgt_config,
                      dict_setitem st1 tgt_config ''instance_type''
                        (VStr (calculate_optimal_instance_size cur opportunity)))
               else if OptimizationType_value (opp_optimization_type opportunity) = ''scheduling''
               then Some (tgt_config,
                      dict_setitem st1 tgt_config ''scheduling'' scheduling_config)
               else if OptimizationType_value (opp_optimization_type opportunity)
                         = ''storage_optimization''
               then Some (tgt_config,
                      dict_setitem st1 tgt_config ''storage_class''
                        (VStr (calculate_optimal_storage_class cur opportunity)))
               else Some (tgt_config, st1)))"

text \<open>The same function on dict values, for the callers that only use the result.\<close>

definition calculate_target_config :: "OptimizationOpportunity \<Rightarrow> py_dict \<Rightarrow> py_dict" where
  "calculate_target_config opportunity cur_config =
     (if OptimizationType_value (opp_optimization_type opportunity) = ''rightsizing''
      then AList.update ''instance_type''
             (VStr (calculate_optimal_instance_size cur_config opportunity)) cur_config
      else if OptimizationType_value (opp_optimization_type opportunity) = ''scheduling''
      then AList.update ''scheduling'' scheduling_config cur_config
      else if OptimizationType_value (opp_optimization_type opportunity) = ''storage_optimization''
      then AList.update ''storage_class''
             (VStr (calculate_optimal_storage_class cur_config opportunity)) cur_config
      else cur_config)"

text \<open>The key that \<^verbatim>\<open>_calculate_target_config\<close> may set for an optimization type.\<close>

fun specific_key :: "OptimizationType \<Rightarrow> string option" where
  "specific_key RIGHTSIZING = Some ''instance_type''"
| "specific_key SCHEDULING = Some ''scheduling''"
| "specific_key STORAGE_OPTIMIZATION = Some ''storage_class''"
| "specific_key t = None"

subsection \<open>Gateway calls\<close>

text \<open>Each call is answered from the calls made before it and then joins the trace.\<close>

definition call_validate_connection :: "gateway \<Rightarrow> string \<Rightarrow> world \<Rightarrow> (exc + bool) \<times> world" where
  "call_validate_connection gw p w =
     (validate_connection gw (calls w) p, called (ValidateConnection p) w)"

definition call_resource_exists ::
  "gateway \<Rightarrow> string \<Rightarrow> string \<Rightarrow> world \<Rightarrow> (exc + bool) \<times> world" where
  "call_resource_exists gw r p w =
     (resource_exists gw (calls w) r p, called (ResourceExists r p) w)"

definition call_get_resource_config ::
  "gateway \<Rightarrow> string \<Rightarrow> string \<Rightarrow> world \<Rightarrow> (exc + py_dict) \<times> world" where
  "call_get_resource_config gw r p w =
     (get_resource_config gw (calls w) r p, called (GetResourceConfig r p) w)"

definition call_create_resource_backup ::
  "gateway \<Rightarrow> string \<Rightarrow> string \<Rightarrow> world \<Rightarrow> (exc + py_dict) \<times> world" where
  "call_create_resource_backup gw r p w =
     (create_resource_backup gw (calls w) r p, called (CreateResourceBackup r p) w)"

definition call_restore_resource_from_backup ::
  "gateway \<Rightarrow> string \<Rightarrow> string \<Rightarrow> py_dict \<Rightarrow> world \<Rightarrow> (exc + unit) \<times> world" where
  "call_restore_resource_from_backup gw r p b w =
     (restore_resource_from_backup gw (calls w) r p b,
      called (RestoreResourceFromBackup r p b) w)"

definition call_update_resource_tags ::
  "gateway \<Rightarrow> string \<Rightarrow> string \<Rightarrow> py_dict \<Rightarrow> world \<Rightarrow> (exc + unit) \<times> world" where
  "call_update_resource_tags gw r p t w =
     (update_resource_tags gw (calls w) r p t, called (UpdateResourceTags r p t) w)"

subsection \<open>Handlers and the pipeline builder\<close>

text \<open>The six handler methods. Each returns one \<^verbatim>\<open>EXECUTION\<close> step of order 4; none
  reads its second argument.\<close>

definition execute_rightsizing :: "ExecutionContext \<Rightarrow> ExecutionStep list" where
  "execute_rightsizing ctx =
     [new_step (execution_id ctx @ ''_rightsizing'') ''Instance Rightsizing'' EXECUTION 4 20
        [''Stop instance'', ''Change instance type back to original'', ''Start instance'']]"

definition execute_scheduling :: "ExecutionContext \<Rightarrow> ExecutionStep list" where
  "execute_scheduling ctx =
     [new_step (execution_id ctx @ ''_scheduling'') ''Resource Scheduling'' EXECUTION 4 15
        [''Remove scheduled actions'', ''Start resource manually'']]"

definition execute_unused_resource_removal :: "ExecutionContext \<Rightarrow> ExecutionStep list" where
  "execute_unused_resource_removal ctx =
     [new_step (execution_id ctx @ ''_removal'') ''Unused Resource Removal'' EXECUTION 4 10
        [''Restore from backup'', ''Recreate resource configuration'']]"

definition execute_storage_optimization :: "ExecutionContext \<Rightarrow> ExecutionStep list" where
  "execute_storage_optimization ctx =
     [new_step (execution_id ctx @ ''_storage'') ''Storage Optimization'' EXECUTION 4 30
        [''Migrate back to original storage class'', ''Remove lifecycle policies'']]"

definition execute_reserved_instance_purchase :: "ExecutionContext \<Rightarrow> ExecutionStep list" where
  "execute_reserved_instance_purchase ctx =
     [new_step (execution_id ctx @ ''_reserved'') ''Reserved Instance Purchase'' EXECUTION 4 5
        [''Cancel reserved instance purchase'']]"

definition execute_spot_instance_migration :: "ExecutionContext \<Rightarrow> ExecutionStep list" where
  "execute_spot_instance_migration ctx =
     [new_step (execution_id ctx @ ''_spot'') ''Spot Instance Migration'' EXECUTION 4 25
        [''Stop spot instance'', ''Start on-demand instance'',
         ''Update load balancer configuration'']]"

datatype handler =
    H_rightsizing | H_scheduling | H_unused_resource_removal
  | H_storage_optimization | H_reserved_instance_purchase | H_spot_instance_migration

fun call_handler :: "handler \<Rightarrow> ExecutionContext \<Rightarrow> ExecutionStep list" where
  "call_handler H_rightsizing ctx = execute_rightsizing ctx"
| "call_handler H_scheduling ctx = execute_scheduling ctx"
| "call_handler H_unused_resource_removal ctx = execute_unused_resource_removal ctx"
| "call_handler H_storage_optimization ctx = execute_storage_optimization ctx"
| "call_handler H_reserved_instance_purchase ctx = execute_reserved_instance_purchase ctx"
| "call_handler H_spot_instance_migration ctx = execute_spot_instance_migration ctx"

type_synonym handlers = "string \<Rightarrow> handler option"

text \<open>\<^verbatim>\<open>_register_execution_handlers\<close>: the table that \<^verbatim>\<open>initialize\<close> installs. Before
  \<^verbatim>\<open>initialize\<close> the table is empty.\<close>

definition register_execution_handlers :: handlers where
  "register_execution_handlers =
     map_of [(''rightsizing'', H_rightsizing), (''scheduling'', H_scheduling),
             (''unused_resources'', H_unused_resource_removal),
             (''storage_optimization'', H_storage_optimization),
             (''reserved_instances'', H_reserved_instance_purchase),
             (''spot_instances'', H_spot_instance_migration)]"

text \<open>The exception of \<^verbatim>\<open>_get_optimization_specific_steps\<close> for a type without a
  handler.\<close>

definition no_handler_found :: "string \<Rightarrow> exc" where
  "no_handler_found t = ValueError (''No handler found for optimization type: '' @ t)"

definition get_optimization_specific_steps ::
  "handlers \<Rightarrow> ExecutionContext \<Rightarrow> exc + ExecutionStep list" where
  "get_optimization_specific_steps hs ctx =
     (case hs (optimization_type ctx) of
        Some h \<Rightarrow> Inr (call_handler h ctx)
      | None \<Rightarrow> Inl (no_handler_found (optimization_type ctx)))"

definition base_steps :: "ExecutionContext \<Rightarrow> OptimizationOpportunity \<Rightarrow> ExecutionStep list" where
  "base_steps ctx opp =
     [new_step (execution_id ctx @ ''_preparation'') ''Preparation'' PREPARATION 1 5 [],
      new_step (execution_id ctx @ ''_validation'') ''Validation'' VALIDATION 2 10 [],
      new_step (execution_id ctx @ ''_backup'') ''Backup'' BACKUP 3 15 [],
      new_step (execution_id ctx @ ''_execution'') ''Execution'' EXECUTION 4
        (estimated_execution_time opp) [],
      new_step (execution_id ctx @ ''_verification'') ''Verification'' VERIFICATION 5 10 [],
      new_step (execution_id ctx @ ''_completion'') ''Completion'' COMPLETION 6 5 []]"

text \<open>\<^verbatim>\<open>sorted(all_steps, key=lambda x: x.order)\<close> is a stable sort, as \<open>sort_key\<close> is.\<close>

definition create_execution_steps ::
  "handlers \<Rightarrow> ExecutionContext \<Rightarrow> OptimizationOpportunity \<Rightarrow> exc + ExecutionStep list" where
  "create_execution_steps hs ctx opp =
     (case get_optimization_specific_steps hs ctx of
        Inl e \<Rightarrow> Inl e
      | Inr optimization_steps \<Rightarrow> Inr (sort_key order (base_steps ctx opp @ optimization_steps)))"

subsection \<open>The step runner\<close>

text \<open>The four checks of the engine are constants in the source.\<close>

definition validate_prerequisite :: "py_value \<Rightarrow> ExecutionContext \<Rightarrow> bool" where
  "validate_prerequisite prerequisite ctx = True"

definition validate_target_config :: "py_dict \<Rightarrow> ExecutionContext \<Rightarrow> bool" where
  "validate_target_config tgt ctx = True"

definition verify_optimization_result :: "py_dict \<Rightarrow> py_dict \<Rightarrow> ExecutionContext \<Rightarrow> bool" where
  "verify_optimization_result tgt cur ctx = True"

definition verify_rollback_success :: "py_dict \<Rightarrow> py_dict \<Rightarrow> bool" where
  "verify_rollback_success original cur = True"

text \<open>Iteration over a value, as the \<^verbatim>\<open>for\<close> statement does it: a list gives its
  elements, a string its characters, a dict its keys; the other values are not iterable.\<close>

fun py_iter :: "py_value \<Rightarrow> exc + py_value list" where
  "py_iter (VList xs) = Inr xs"
| "py_iter (VStr s) = Inr (map (\<lambda>c. VStr [c]) s)"
| "py_iter (VDict d) = Inr (map (\<lambda>kv. VStr (fst kv)) d)"
| "py_iter VNone = Inl (TypeError ''NoneType object is not iterable'')"
| "py_iter (VBool b) = Inl (TypeError ''bool object is not iterable'')"
| "py_iter (VInt i) = Inl (TypeError ''int object is not iterable'')"
| "py_iter (VObject t) = Inl (TypeError (t @ '' object is not iterable''))"

text \<open>The text of a value inside a message; only strings are rendered.\<close>

fun py_str :: "py_value \<Rightarrow> string" where
  "py_str (VStr s) = s"
| "py_str v = ''<value>''"

fun validate_prerequisites :: "py_value list \<Rightarrow> ExecutionContext \<Rightarrow> exc + unit" where
  "validate_prerequisites [] ctx = Inr ()"
| "validate_prerequisites (p # ps) ctx =
     (if \<not> validate_prerequisite p ctx
      then Inl (Exception (''Prerequisite not met: '' @ py_str p))
      else validate_prerequisites ps ctx)"

type_synonym step_result = "(exc + unit) \<times> ExecutionStep \<times> ExecutionContext \<times> world"

definition set_metadata :: "string \<Rightarrow> ExecutionStep \<Rightarrow> ExecutionStep" where
  "set_metadata k step = step\<lparr>metadata := AList.update k (VBool True) (metadata step)\<rparr>"

definition execute_preparation_step ::
  "gateway \<Rightarrow> ExecutionStep \<Rightarrow> ExecutionContext \<Rightarrow> world \<Rightarrow> step_result" where
  "execute_preparation_step gw step ctx w =
     (case call_validate_connection gw (cloud_provider ctx) w of
        (Inl e, w1) \<Rightarrow> (Inl e, step, ctx, w1)
      | (Inr connected, w1) \<Rightarrow>
          (case call_resource_exists gw (resource_id ctx) (cloud_provider ctx) w1 of
             (Inl e, w2) \<Rightarrow> (Inl e, step, ctx, w2)
           | (Inr exists, w2) \<Rightarrow>
               if \<not> exists
               then (Inl (Exception (''Resource '' @ resource_id ctx @ '' not found'')),
                     step, ctx, w2)
               else (Inr (), set_metadata ''preparation_completed'' step, ctx, w2)))"

definition execute_validation_step ::
  "gateway \<Rightarrow> ExecutionStep \<Rightarrow> ExecutionContext \<Rightarrow> world \<Rightarrow> step_result" where
  "execute_validation_step gw step ctx w =
     (case py_iter (case map_of (current_config ctx) ''prerequisites'' of
                      None \<Rightarrow> VList [] | Some v \<Rightarrow> v) of
        Inl e \<Rightarrow> (Inl e, step, ctx, w)
      | Inr prerequisites \<Rightarrow>
          (case validate_prerequisites prerequisites ctx of
             Inl e \<Rightarrow> (Inl e, step, ctx, w)
           | Inr u \<Rightarrow>
               if \<not> validate_target_config (target_config ctx) ctx
               then (Inl (Exception ''Target configuration is invalid''), step, ctx, w)
               else (Inr (), set_metadata ''validation_completed'' step, ctx, w)))"

text \<open>
  The length of the text that \<^verbatim>\<open>json.dumps\<close> produces with its default settings:
  \<^verbatim>\<open>", "\<close> and \<^verbatim>\<open>": "\<close> as separators, and in a string two characters for a
  quote, a backslash and the five short escapes, six for every other character outside
  the printable ASCII range, one for the rest. A value that cannot be serialised raises
  \<^verbatim>\<open>TypeError\<close>.
\<close>

definition json_char_len :: "char \<Rightarrow> nat" where
  "json_char_len c =
     (if c \<in> {CHR 0x22, CHR 0x5C, CHR 0x08, CHR 0x09, CHR 0x0A, CHR 0x0C, CHR 0x0D} then 2
      else if (32 :: nat) \<le> of_char c \<and> of_char c \<le> (126 :: nat) then 1
      else 6)"

definition json_str_len :: "string \<Rightarrow> nat" where
  "json_str_len s = 2 + sum_list (map json_char_len s)"

fun dec_len :: "nat \<Rightarrow> nat" where
  "dec_len n = (if n < 10 then 1 else Suc (dec_len (n div 10)))"

declare dec_len.simps [simp del]

definition json_int_len :: "int \<Rightarrow> nat" where
  "json_int_len i = (if i < 0 then Suc (dec_len (nat (- i))) else dec_len (nat i))"

fun json_len :: "py_value \<Rightarrow> exc + nat"
  and json_len_list :: "py_value list \<Rightarrow> exc + nat"
  and json_len_items :: "(string \<times> py_value) list \<Rightarrow> exc + nat" where
  "json_len VNone = Inr 4"
| "json_len (VBool b) = Inr (if b then 4 else 5)"
| "json_len (VInt i) = Inr (json_int_len i)"
| "json_len (VStr s) = Inr (json_str_len s)"
| "json_len (VList xs) =
     (case json_len_list xs of
        Inl e \<Rightarrow> Inl e
      | Inr n \<Rightarrow> Inr (2 + n + 2 * (length xs - 1)))"
| "json_len (VDict d) =
     (case json_len_items d of
        Inl e \<Rightarrow> Inl e
      | Inr n \<Rightarrow> Inr (2 + n + 2 * (length d - 1)))"
| "json_len (VObject t) =
     Inl (TypeError (''Object of type '' @ t @ '' is not JSON serializable''))"
| "json_len_list [] = Inr 0"
| "json_len_list (x # xs) =
     (case json_len x of
        Inl e \<Rightarrow> Inl e
      | Inr n \<Rightarrow> (case json_len_list xs of Inl e \<Rightarrow> Inl e | Inr m \<Rightarrow> Inr (n + m)))"
| "json_len_items [] = Inr 0"
| "json_len_items (kv # kvs) =
     (case json_len (snd kv) of
        Inl e \<Rightarrow> Inl e
      | Inr n \<Rightarrow>
          (case json_len_items kvs of
             Inl e \<Rightarrow> Inl e
           | Inr m \<Rightarrow> Inr (json_str_len (fst kv) + 2 + n + m)))"

text \<open>\<^verbatim>\<open>_execute_backup_step\<close> stores the backup in the context and marks the step
  before it measures the backup: when \<^verbatim>\<open>json.dumps\<close> raises, the step fails with the
  backup already stored.\<close>

definition execute_backup_step ::
  "gateway \<Rightarrow> ExecutionStep \<Rightarrow> ExecutionContext \<Rightarrow> world \<Rightarrow> step_result" where
  "execute_backup_step gw step ctx w =
     (case call_create_resource_backup gw (resource_id ctx) (cloud_provider ctx) w of
        (Inl e, w1) \<Rightarrow> (Inl e, step, ctx, w1)
      | (Inr backup, w1) \<Rightarrow>
          (case json_len (VDict backup) of
             Inl e \<Rightarrow>
               (Inl e, set_metadata ''backup_completed'' step, ctx\<lparr>backup_data := backup\<rparr>, w1)
           | Inr n \<Rightarrow>
               (Inr (),
                (set_metadata ''backup_completed'' step)
                  \<lparr>metadata := AList.update ''backup_size'' (VInt (int n))
                     (metadata (set_metadata ''backup_completed'' step))\<rparr>,
                ctx\<lparr>backup_data := backup\<rparr>, w1)))"

text \<open>The handler is called with the context and the step; the list it builds is dropped.\<close>

definition execute_optimization_step ::
  "handlers \<Rightarrow> ExecutionStep \<Rightarrow> ExecutionContext \<Rightarrow> world \<Rightarrow> step_result" where
  "execute_optimization_step hs step ctx w =
     (case hs (optimization_type ctx) of
        Some h \<Rightarrow> (let dropped = call_handler h ctx in (Inr (), step, ctx, w))
      | None \<Rightarrow> (Inl (Exception (''No handler for optimization type: ''
                                  @ optimization_type ctx)), step, ctx, w))"

definition execute_verification_step ::
  "gateway \<Rightarrow> ExecutionStep \<Rightarrow> ExecutionContext \<Rightarrow> world \<Rightarrow> step_result" where
  "execute_verification_step gw step ctx w =
     (case call_get_resource_config gw (resource_id ctx) (cloud_provider ctx) w of
        (Inl e, w1) \<Rightarrow> (Inl e, step, ctx, w1)
      | (Inr cur, w1) \<Rightarrow>
          if \<not> verify_optimization_result (target_config ctx) cur ctx
          then (Inl (Exception ''Optimization verification failed''), step, ctx, w1)
          else (Inr (), set_metadata ''verification_completed'' step, ctx, w1))"

definition execute_completion_step ::
  "gateway \<Rightarrow> ExecutionStep \<Rightarrow> ExecutionContext \<Rightarrow> world \<Rightarrow> step_result" where
  "execute_completion_step gw step ctx w =
     (case call_update_resource_tags gw (resource_id ctx) (cloud_provider ctx)
             [(''optimized'', VStr ''true''),
              (''optimization_type'', VStr (optimization_type ctx)),
              (''execution_id'', VStr (execution_id ctx))] w of
        (Inl e, w1) \<Rightarrow> (Inl e, step, ctx, w1)
      | (Inr u, w1) \<Rightarrow> (Inr (), set_metadata ''completion_completed'' step, ctx, w1))"

text \<open>The \<^verbatim>\<open>if\<close>/\<^verbatim>\<open>elif\<close> chain on the phase inside the \<^verbatim>\<open>try\<close> block of
  \<^verbatim>\<open>_execute_step\<close>; a \<^verbatim>\<open>ROLLBACK\<close> step matches no branch.\<close>

fun run_phase ::
  "gateway \<Rightarrow> handlers \<Rightarrow> ExecutionPhase \<Rightarrow> ExecutionStep \<Rightarrow> ExecutionContext \<Rightarrow> world
     \<Rightarrow> step_result" where
  "run_phase gw hs PREPARATION step ctx w = execute_preparation_step gw step ctx w"
| "run_phase gw hs VALIDATION step ctx w = execute_validation_step gw step ctx w"
| "run_phase gw hs BACKUP step ctx w = execute_backup_step gw step ctx w"
| "run_phase gw hs EXECUTION step ctx w = execute_optimization_step hs step ctx w"
| "run_phase gw hs VERIFICATION step ctx w = execute_verification_step gw step ctx w"
| "run_phase gw hs COMPLETION step ctx w = execute_completion_step gw step ctx w"
| "run_phase gw hs ROLLBACK step ctx w = (Inr (), step, ctx, w)"

text \<open>One pass through the \<^verbatim>\<open>try\<close> block: the step becomes \<^verbatim>\<open>RUNNING\<close>, the phase
  action runs, and if it returns the step becomes \<^verbatim>\<open>COMPLETED\<close>. \<open>d\<close> is the number
  of \<^verbatim>\<open>_execute_step\<close> frames already on the stack.\<close>

definition attempt ::
  "gateway \<Rightarrow> handlers \<Rightarrow> nat \<Rightarrow> ExecutionStep \<Rightarrow> ExecutionContext \<Rightarrow> world \<Rightarrow> step_result" where
  "attempt gw hs d step ctx w =
     (case run_phase gw hs (phase step) (step\<lparr>status := RUNNING\<rparr>) ctx
             (w\<lparr>frames := max (frames w) (Suc d)\<rparr>) of
        (Inl e, step1, ctx1, w1) \<Rightarrow> (Inl e, step1, ctx1, w1)
      | (Inr u, step1, ctx1, w1) \<Rightarrow>
          (Inr (), step1\<lparr>status := COMPLETED\<rparr>, ctx1,
           log_event ''execution_step_completed'' (step_id step1) w1))"

text \<open>The bookkeeping at the head of the \<^verbatim>\<open>except\<close> block.\<close>

definition record_failure :: "exc \<Rightarrow> ExecutionStep \<Rightarrow> ExecutionStep" where
  "record_failure e step =
     step\<lparr>status := FAILED, error_message := Some (str_exc e),
          retry_count := retry_count step + 1\<rparr>"

definition backoff :: "ExecutionStep \<Rightarrow> world \<Rightarrow> world" where
  "backoff step w = w\<lparr>sleeps := sleeps w @ [step]\<rparr>"

lemma run_phase_retry_fields:
  "run_phase gw hs p step ctx w = (r, step1, ctx1, w1) \<Longrightarrow>
     retry_count step1 = retry_count step \<and> max_retries step1 = max_retries step"
  by (cases p)
     (auto simp: execute_preparation_step_def execute_validation_step_def
        execute_backup_step_def execute_optimization_step_def
        execute_verification_step_def execute_completion_step_def set_metadata_def
        split: prod.splits sum.splits if_splits option.splits)

lemma attempt_retry_fields:
  "attempt gw hs d step ctx w = (r, step1, ctx1, w1) \<Longrightarrow>
     retry_count step1 = retry_count step \<and> max_retries step1 = max_retries step"
  by (auto simp: attempt_def split: prod.splits sum.splits dest!: run_phase_retry_fields)

text \<open>
  \<^verbatim>\<open>_execute_step\<close>. A failed attempt is recorded, and while
  \<^verbatim>\<open>retry_count < max_retries\<close> the method sleeps and calls itself from inside its
  \<^verbatim>\<open>except\<close> block, one frame deeper; what the inner call returns or raises is what
  the outer call returns or raises. Otherwise the exception is raised again.
\<close>

function execute_step ::
  "gateway \<Rightarrow> handlers \<Rightarrow> nat \<Rightarrow> ExecutionStep \<Rightarrow> ExecutionContext \<Rightarrow> world \<Rightarrow> step_result" where
  "execute_step gw hs d step ctx w =
     (case attempt gw hs d step ctx w of
        (Inr u, step1, ctx1, w1) \<Rightarrow> (Inr (), step1, ctx1, w1)
      | (Inl e, step1, ctx1, w1) \<Rightarrow>
          (let step2 = record_failure e step1;
               w2 = log_event ''execution_step_failed'' (step_id step2) w1
           in if retry_count step2 < max_retries step2
              then execute_step gw hs (Suc d) step2 ctx1 (backoff step2 w2)
              else (Inl e, step2, ctx1, w2)))"
  by pat_completeness auto
termination
  by (relation "measure (\<lambda>(gw, hs, d, step, ctx, w). nat (max_retries step - retry_count step))")
     (auto simp: record_failure_def dest!: attempt_retry_fields [OF sym])

subsection \<open>The pipeline driver\<close>

definition log_entry :: "ExecutionStep \<Rightarrow> string \<times> string \<times> ExecutionStatus" where
  "log_entry step = (step_id step, name step, status step)"

text \<open>
  The \<^verbatim>\<open>except\<close> block of \<^verbatim>\<open>_run_execution_pipeline\<close> calls
  \<^verbatim>\<open>self._rollback_execution(context, step)\<close>, a method that takes the context only:
  the call raises \<^verbatim>\<open>TypeError\<close> before the method body runs, and this is the
  exception that leaves the pipeline.
\<close>

definition rollback_call_error :: exc where
  "rollback_call_error =
     TypeError ''_rollback_execution() takes 2 positional arguments but 3 were given''"

text \<open>The \<^verbatim>\<open>for\<close> loop over the steps. The second component lists the steps that
  were started, each as \<^verbatim>\<open>_execute_step\<close> left it.\<close>

fun run_steps ::
  "gateway \<Rightarrow> handlers \<Rightarrow> ExecutionStep list \<Rightarrow> ExecutionContext \<Rightarrow> world
     \<Rightarrow> (exc + unit) \<times> ExecutionStep list \<times> ExecutionContext \<times> world" where
  "run_steps gw hs [] ctx w = (Inr (), [], ctx, w)"
| "run_steps gw hs (step # rest) ctx w =
     (case execute_step gw hs 0 step ctx w of
        (Inr u, step1, ctx1, w1) \<Rightarrow>
          (let ctx2 = ctx1\<lparr>execution_log := execution_log ctx1 @ [log_entry step1]\<rparr>
           in if status step1 = FAILED \<and> retry_count step1 \<ge> max_retries step1
              then (Inl rollback_call_error, [step1], ctx2,
                    log_event ''execution_step_failed'' (step_id step1) w1)
              else (case run_steps gw hs rest ctx2 w1 of
                      (r, started, ctx3, w3) \<Rightarrow> (r, step1 # started, ctx3, w3)))
      | (Inl e, step1, ctx1, w1) \<Rightarrow>
          (Inl rollback_call_error, [step1], ctx1,
           log_event ''execution_step_failed'' (step_id step1) w1))"

definition run_execution_pipeline ::
  "gateway \<Rightarrow> handlers \<Rightarrow> ExecutionContext \<Rightarrow> OptimizationOpportunity \<Rightarrow> world
     \<Rightarrow> (exc + unit) \<times> ExecutionStep list \<times> ExecutionContext \<times> world" where
  "run_execution_pipeline gw hs ctx opp w =
     (case create_execution_steps hs ctx opp of
        Inl e \<Rightarrow> (Inl e, [], ctx, w)
      | Inr execution_steps \<Rightarrow> run_steps gw hs execution_steps ctx w)"

subsection \<open>Rollback and failure handling\<close>

text \<open>\<^verbatim>\<open>_rollback_execution\<close>: every exception inside it is caught, logged as
  \<^verbatim>\<open>rollback_failed\<close> and turned into the result \<^verbatim>\<open>False\<close>.\<close>

definition rollback_execution :: "gateway \<Rightarrow> ExecutionContext \<Rightarrow> world \<Rightarrow> bool \<times> world" where
  "rollback_execution gw ctx w =
     (let w0 = log_event ''rollback_started'' (execution_id ctx) w
      in case (if backup_data ctx \<noteq> []
               then call_restore_resource_from_backup gw (resource_id ctx) (cloud_provider ctx)
                      (backup_data ctx) w0
               else (Inr (), w0)) of
           (Inl e, w1) \<Rightarrow> (False, log_event ''rollback_failed'' (execution_id ctx) w1)
         | (Inr u, w1) \<Rightarrow>
             (case call_get_resource_config gw (resource_id ctx) (cloud_provider ctx) w1 of
                (Inl e, w2) \<Rightarrow> (False, log_event ''rollback_failed'' (execution_id ctx) w2)
              | (Inr cur, w2) \<Rightarrow>
                  (let rollback_successful = verify_rollback_success (current_config ctx) cur
                   in (rollback_successful,
                       log_event (if rollback_successful
                                  then ''rollback_completed_successfully''
                                  else ''rollback_verification_failed'')
                         (execution_id ctx) w2))))"

text \<open>
  \<^verbatim>\<open>_handle_execution_failure\<close>. After a successful rollback it evaluates
  \<^verbatim>\<open>OptimizationStatus.ROLLED_BACK\<close>; when that raises, the \<^verbatim>\<open>except\<close> block of
  the method logs \<^verbatim>\<open>execution_failure_handling_failed\<close> and the status is left as
  it was.
\<close>

definition handle_execution_failure ::
  "gateway \<Rightarrow> OptimizationExecution \<Rightarrow> ExecutionContext \<Rightarrow> string \<Rightarrow> world
     \<Rightarrow> OptimizationExecution \<times> world" where
  "handle_execution_failure gw execution ctx msg w =
     (let w0 = log_event ''execution_failure_handling_started'' (exec_id execution) w;
          execution1 = execution\<lparr>exec_status := OS_FAILED, exec_error_message := Some msg\<rparr>
      in case rollback_execution gw ctx w0 of
           (rollback_success, w1) \<Rightarrow>
             if rollback_success
             then (case OptimizationStatus_attr ''ROLLED_BACK'' of
                     Inr s \<Rightarrow> (execution1\<lparr>exec_status := s\<rparr>,
                               log_event ''execution_rollback_successful'' (exec_id execution) w1)
                   | Inl e \<Rightarrow> (execution1,
                               log_event ''execution_failure_handling_failed''
                                 (exec_id execution) w1))
             else (execution1,
                   log_event ''execution_rollback_failed'' (exec_id execution) w1))"

subsection \<open>The engine\<close>

text \<open>
  An entry of \<^verbatim>\<open>active_executions\<close>; the table is keyed by the execution id. In Python
  the entry refers to the execution and the context objects; here it holds their values
  at the moment the engine state is looked at.
\<close>

record entry =
  entry_execution :: OptimizationExecution
  entry_context :: ExecutionContext
  entry_status :: ExecutionStatus

record engine =
  execution_handlers :: handlers
  active_executions :: "string \<Rightarrow> entry option"

text \<open>\<^verbatim>\<open>__init__\<close> and \<^verbatim>\<open>initialize\<close>.\<close>

definition new_engine :: engine where
  "new_engine = \<lparr>execution_handlers = Map.empty, active_executions = Map.empty\<rparr>"

definition initialize :: "engine \<Rightarrow> engine" where
  "initialize eng = eng\<lparr>execution_handlers := register_execution_handlers\<rparr>"

text \<open>The execution record as \<^verbatim>\<open>execute_optimization\<close> constructs it; \<open>uuid\<close> is
  the value of \<^verbatim>\<open>str(uuid.uuid4())\<close>. The constructor is given neither
  \<^verbatim>\<open>rollback_required\<close> nor \<^verbatim>\<open>rollback_completed\<close>: both attributes are \<^verbatim>\<open>None\<close>.
  The default \<^verbatim>\<open>False\<close> of their columns is applied when a record is inserted into the
  database, which the engine never does, and no statement of the engine assigns them.\<close>

definition new_execution ::
  "string \<Rightarrow> OptimizationOpportunity \<Rightarrow> string \<Rightarrow> OptimizationExecution" where
  "new_execution uuid opp approver_id =
     \<lparr>exec_id = uuid, exec_opportunity_id = opp_id opp, exec_status = OS_EXECUTING,
      exec_error_message = None, rollback_required = None, rollback_completed = None,
      executed_by = approver_id\<rparr>"

definition create_execution_context ::
  "gateway \<Rightarrow> OptimizationOpportunity \<Rightarrow> OptimizationExecution \<Rightarrow> world
     \<Rightarrow> (exc + ExecutionContext) \<times> world" where
  "create_execution_context gw opp execution w =
     (case call_get_resource_config gw (opp_resource_id opp)
             (CloudProvider_value (opp_cloud_provider opp)) w of
        (Inl e, w1) \<Rightarrow> (Inl e, w1)
      | (Inr cur, w1) \<Rightarrow>
          (Inr \<lparr>opportunity_id = opp_id opp, execution_id = exec_id execution,
                resource_id = opp_resource_id opp,
                cloud_provider = CloudProvider_value (opp_cloud_provider opp),
                region = opp_region opp,
                optimization_type = OptimizationType_value (opp_optimization_type opp),
                current_config = cur, target_config = calculate_target_config opp cur,
                backup_data = [], execution_log = [], rollback_data = []\<rparr>, w1))"

text \<open>The first part of \<^verbatim>\<open>execute_optimization\<close>, up to the entry in
  \<^verbatim>\<open>active_executions\<close>: the state in which the pipeline of this execution runs.\<close>

definition admit ::
  "gateway \<Rightarrow> string \<Rightarrow> OptimizationOpportunity \<Rightarrow> string \<Rightarrow> engine \<Rightarrow> world
     \<Rightarrow> (exc + OptimizationExecution \<times> ExecutionContext) \<times> engine \<times> world" where
  "admit gw uuid opp approver_id eng w =
     (let w0 = log_event ''optimization_execution_started'' (opp_id opp) w;
          execution = new_execution uuid opp approver_id
      in case create_execution_context gw opp execution w0 of
           (Inl e, w1) \<Rightarrow> (Inl e, eng, w1)
         | (Inr ctx, w1) \<Rightarrow>
             (Inr (execution, ctx),
              eng\<lparr>active_executions := (active_executions eng)(exec_id execution \<mapsto>
                     \<lparr>entry_execution = execution, entry_context = ctx,
                      entry_status = RUNNING\<rparr>)\<rparr>,
              w1))"

text \<open>What a call of \<^verbatim>\<open>execute_optimization\<close> leaves behind: the exception it raised,
  if any (otherwise it returned the execution record), the execution record, the
  context and the steps that were started.\<close>

record outcome =
  raised :: "exc option"
  final_execution :: OptimizationExecution
  final_context :: "ExecutionContext option"
  started_steps :: "ExecutionStep list"

definition cleanup :: "string \<Rightarrow> engine \<Rightarrow> engine" where
  "cleanup eid eng = eng\<lparr>active_executions := (active_executions eng)(eid := None)\<rparr>"

definition execute_optimization ::
  "gateway \<Rightarrow> string \<Rightarrow> OptimizationOpportunity \<Rightarrow> string \<Rightarrow> engine \<Rightarrow> world
     \<Rightarrow> outcome \<times> engine \<times> world" where
  "execute_optimization gw uuid opp approver_id eng w =
     (case admit gw uuid opp approver_id eng w of
        (Inl e, eng1, w1) \<Rightarrow>
          (\<lparr>raised = Some e, final_execution = new_execution uuid opp approver_id,
            final_context = None, started_steps = []\<rparr>,
           eng1, log_event ''optimization_execution_failed'' (opp_id opp) w1)
      | (Inr (execution, ctx), eng1, w1) \<Rightarrow>
          (case run_execution_pipeline gw (execution_handlers eng1) ctx opp w1 of
             (Inr u, steps, ctx2, w2) \<Rightarrow>
               (\<lparr>raised = None, final_execution = execution\<lparr>exec_status := OS_COMPLETED\<rparr>,
                 final_context = Some ctx2, started_steps = steps\<rparr>,
                cleanup (exec_id execution) eng1,
                log_event ''optimization_execution_completed'' (exec_id execution) w2)
           | (Inl e, steps, ctx2, w2) \<Rightarrow>
               (case handle_execution_failure gw execution ctx2 (str_exc e) w2 of
                  (execution2, w3) \<Rightarrow>
                    (\<lparr>raised = Some e, final_execution = execution2,
                      final_context = Some ctx2, started_steps = steps\<rparr>,
                     cleanup (exec_id execution) eng1,
                     log_event ''optimization_execution_failed'' (opp_id opp) w3))))"

text \<open>\<^verbatim>\<open>cancel_execution\<close>; the second component is the execution record of the entry
  after the call.\<close>

definition cancel_execution ::
  "gateway \<Rightarrow> string \<Rightarrow> string \<Rightarrow> engine \<Rightarrow> world
     \<Rightarrow> bool \<times> OptimizationExecution option \<times> engine \<times> world" where
  "cancel_execution gw eid reason eng w =
     (case active_executions eng eid of
        Some execution_data \<Rightarrow>
          (case rollback_execution gw (entry_context execution_data) w of
             (rolled_back, w1) \<Rightarrow>
               (True,
                Some ((entry_execution execution_data)
                        \<lparr>exec_status := OS_CANCELLED,
                         exec_error_message := Some (''Cancelled: '' @ reason)\<rparr>),
                cleanup eid eng,
                log_event ''execution_cancelled'' eid w1))
      | None \<Rightarrow> (False, None, eng, w))"

subsection \<open>Behaviour of a step over its attempts\<close>

text \<open>
  \<open>fails_then_succeeds k\<close>: the first \<open>k\<close> attempts of the step raise and the next one
  returns, each attempt made in the state in which the failure before it left the step,
  the context and the world.
\<close>

fun fails_then_succeeds ::
  "nat \<Rightarrow> gateway \<Rightarrow> handlers \<Rightarrow> nat \<Rightarrow> ExecutionStep \<Rightarrow> ExecutionContext \<Rightarrow> world \<Rightarrow> bool" where
  "fails_then_succeeds 0 gw hs d step ctx w =
     (case attempt gw hs d step ctx w of
        (Inr u, rest) \<Rightarrow> True
      | (Inl e, rest) \<Rightarrow> False)"
| "fails_then_succeeds (Suc k) gw hs d step ctx w =
     (case attempt gw hs d step ctx w of
        (Inr u, rest) \<Rightarrow> False
      | (Inl e, step1, ctx1, w1) \<Rightarrow>
          fails_then_succeeds k gw hs (Suc d) (record_failure e step1) ctx1
            (backoff (record_failure e step1)
               (log_event ''execution_step_failed'' (step_id step1) w1)))"

subsection \<open>Concrete inputs\<close>

text \<open>A rightsizing opportunity for the instance \<^verbatim>\<open>i-abc\<close>, and the context that
  \<^verbatim>\<open>_create_execution_context\<close> builds for it under the execution id \<^verbatim>\<open>e1\<close>.\<close>

definition opp_abc :: OptimizationOpportunity where
  "opp_abc =
     \<lparr>opp_id = ''opp-1'', opp_resource_id = ''i-abc'', opp_optimization_type = RIGHTSIZING,
      opp_cloud_provider = AWS, opp_region = ''us-east-1'', estimated_execution_time = 15\<rparr>"

definition ctx_abc :: ExecutionContext where
  "ctx_abc =
     \<lparr>opportunity_id = ''opp-1'', execution_id = ''e1'', resource_id = ''i-abc'',
      cloud_provider = ''aws'', region = ''us-east-1'', optimization_type = ''rightsizing'',
      current_config =
        [(''id'', VStr ''i-abc''), (''provider'', VStr ''aws''), (''status'', VStr ''running''),
         (''instance_type'', VStr ''t3.large''), (''prerequisites'', VList [])],
      target_config =
        [(''id'', VStr ''i-abc''), (''provider'', VStr ''aws''), (''status'', VStr ''running''),
         (''instance_type'', VStr ''t3.medium''), (''prerequisites'', VList [])],
      backup_data = [], execution_log = [], rollback_data = []\<rparr>"

definition backup_step :: ExecutionStep where
  "backup_step = new_step ''e1_backup'' ''Backup'' BACKUP 3 15 []"

text \<open>A gateway whose backup call raises the first \<open>k\<close> times it is made for a
  resource, one whose backup holds an object that cannot be serialised, and one whose
  backup call always raises.\<close>

definition flaky_backup :: "nat \<Rightarrow> gateway" where
  "flaky_backup k =
     CloudProviderService\<lparr>create_resource_backup :=
       (\<lambda>h r p. if length (filter (\<lambda>c. c = CreateResourceBackup r p) h) < k
                 then Inl (Exception ''I/O error'')
                 else create_resource_backup CloudProviderService h r p)\<rparr>"

definition unserialisable_backup :: gateway where
  "unserialisable_backup =
     CloudProviderService\<lparr>create_resource_backup :=
       (\<lambda>h r p. Inr [(''resource_id'', VStr r), (''taken_at'', VObject ''datetime'')])\<rparr>"

definition failing_backup :: gateway where
  "failing_backup =
     CloudProviderService\<lparr>create_resource_backup := (\<lambda>h r p. Inl (Exception ''I/O error''))\<rparr>"

text \<open>A gateway on which the configuration cannot be read between a backup and a
  restore, so that the verification step fails after the backup was taken; the reply of
  its restore call is the parameter.\<close>

definition unreadable_after_backup :: "exc + unit \<Rightarrow> gateway" where
  "unreadable_after_backup restore_reply =
     CloudProviderService\<lparr>
       get_resource_config :=
         (\<lambda>h r p. if CreateResourceBackup r p \<in> set h \<and> filter is_restore h = []
                   then Inl (Exception ''read error'')
                   else get_resource_config CloudProviderService h r p),
       restore_resource_from_backup := (\<lambda>h r p b. restore_reply)\<rparr>"

text \<open>The engine while the execution \<^verbatim>\<open>e1\<close> of \<open>opp_abc\<close> is registered, and after a
  second submission for the same resource has been registered as well.\<close>

definition eng_one_running :: engine where
  "eng_one_running =
     fst (snd (admit CloudProviderService ''e1'' opp_abc ''alice'' (initialize new_engine) world0))"

definition eng_two_running :: engine where
  "eng_two_running =
     fst (snd (admit CloudProviderService ''e2'' opp_abc ''bob'' eng_one_running world0))"

text \<open>The engine while \<^verbatim>\<open>e1\<close> is past its backup step: the context of the entry holds
  the backup.\<close>

definition eng_after_backup :: engine where
  "eng_after_backup =
     (initialize new_engine)\<lparr>active_executions :=
        [''e1'' \<mapsto> \<lparr>entry_execution = new_execution ''e1'' opp_abc ''alice'',
                     entry_context = ctx_abc\<lparr>backup_data := [(''resource_id'', VStr ''i-abc'')]\<rparr>,
                     entry_status = RUNNING\<rparr>]\<rparr>"

text \<open>A store that holds the current configuration of \<open>ctx_abc\<close> at address 0.\<close>

definition store_abc :: store where
  "store_abc = \<lparr>cells = [0 \<mapsto> current_config ctx_abc], next_addr = 1\<rparr>"


definition run_unserialisable_backup :: "outcome \<times> engine \<times> world" where
  "run_unserialisable_backup =
     execute_optimization unserialisable_backup ''e1'' opp_abc ''alice''
       (initialize new_engine) world0"


definition run_restore_error :: "outcome \<times> engine \<times> world" where
  "run_restore_error =
     execute_optimization (unreadable_after_backup (Inl (Exception ''RestoreError'')))
       ''e1'' opp_abc ''alice'' (initialize new_engine) world0"

definition run_restore_ok :: "outcome \<times> engine \<times> world" where
  "run_restore_ok =
     execute_optimization (unreadable_after_backup (Inr ()))
       ''e1'' opp_abc ''alice'' (initialize new_engine) world0"

definition run_no_handlers :: "outcome \<times> engine \<times> world" where
  "run_no_handlers =
     execute_optimization CloudProviderService ''e1'' opp_abc ''alice'' new_engine world0"


section \<open>Properties\<close>

subsection \<open>One step\<close>

declare execute_step.simps [simp del]

lemmas phase_defs =
  execute_preparation_step_def execute_validation_step_def execute_backup_step_def
  execute_optimization_step_def execute_verification_step_def execute_completion_step_def
  set_metadata_def call_validate_connection_def call_resource_exists_def
  call_get_resource_config_def call_create_resource_backup_def
  call_update_resource_tags_def called_def

lemma run_phase_step:
  "run_phase gw hs p step ctx w = (r, step1, ctx1, w1) \<Longrightarrow>
     step_id step1 = step_id step \<and> name step1 = name step \<and> phase step1 = phase step
     \<and> order step1 = order step \<and> status step1 = status step
     \<and> error_message step1 = error_message step"
  by (cases p) (auto simp: phase_defs split: prod.splits sum.splits if_splits option.splits)

lemma run_phase_world:
  "run_phase gw hs p step ctx w = (r, step1, ctx1, w1) \<Longrightarrow>
     events w1 = events w \<and> sleeps w1 = sleeps w \<and> frames w1 = frames w
     \<and> filter is_restore (calls w1) = filter is_restore (calls w)"
  by (cases p) (auto simp: phase_defs split: prod.splits sum.splits if_splits option.splits)

lemma run_phase_ctx:
  "run_phase gw hs p step ctx w = (r, step1, ctx1, w1) \<Longrightarrow>
     ctx1 = ctx \<or> (p = BACKUP \<and> (\<exists>b. ctx1 = ctx\<lparr>backup_data := b\<rparr>))"
  by (cases p) (auto simp: phase_defs split: prod.splits sum.splits if_splits option.splits)

lemma attempt_cases:
  obtains (returned) step0 w0 where
      "run_phase gw hs (phase step) (step\<lparr>status := RUNNING\<rparr>) ctx
         (w\<lparr>frames := max (frames w) (Suc d)\<rparr>) = (Inr (), step0, ctx1, w0)"
      "r = Inr ()" "step1 = step0\<lparr>status := COMPLETED\<rparr>"
      "w1 = log_event ''execution_step_completed'' (step_id step0) w0"
  | (raised) e where
      "run_phase gw hs (phase step) (step\<lparr>status := RUNNING\<rparr>) ctx
         (w\<lparr>frames := max (frames w) (Suc d)\<rparr>) = (Inl e, step1, ctx1, w1)"
      "r = Inl e"
  | (other) "attempt gw hs d step ctx w \<noteq> (r, step1, ctx1, w1)"
  by (cases "attempt gw hs d step ctx w = (r, step1, ctx1, w1)")
     (auto simp: attempt_def split: prod.splits sum.splits)

lemma attempt_Inr:
  assumes "attempt gw hs d step ctx w = (Inr u, step1, ctx1, w1)"
  shows "status step1 = COMPLETED" "step_id step1 = step_id step" "name step1 = name step"
    "phase step1 = phase step" "order step1 = order step"
    "retry_count step1 = retry_count step" "max_retries step1 = max_retries step"
    "events w1 = events w @ [(''execution_step_completed'', step_id step)]"
    "sleeps w1 = sleeps w" "frames w1 = max (frames w) (Suc d)"
    "filter is_restore (calls w1) = filter is_restore (calls w)"
    "ctx1 = ctx \<or> (phase step = BACKUP \<and> (\<exists>b. ctx1 = ctx\<lparr>backup_data := b\<rparr>))"
proof -
  from assms obtain step0 w0 where
    rp: "run_phase gw hs (phase step) (step\<lparr>status := RUNNING\<rparr>) ctx
           (w\<lparr>frames := max (frames w) (Suc d)\<rparr>) = (Inr (), step0, ctx1, w0)"
    and s1: "step1 = step0\<lparr>status := COMPLETED\<rparr>"
    and w1: "w1 = log_event ''execution_step_completed'' (step_id step0) w0"
    by (cases rule: attempt_cases [of gw hs step ctx w d ctx1 "Inr u" step1 w1]) auto
  note a = run_phase_step [OF rp] run_phase_world [OF rp] run_phase_ctx [OF rp]
    run_phase_retry_fields [OF rp]
  from a s1 w1 show "status step1 = COMPLETED" "step_id step1 = step_id step"
    "name step1 = name step" "phase step1 = phase step" "order step1 = order step"
    "retry_count step1 = retry_count step" "max_retries step1 = max_retries step"
    "events w1 = events w @ [(''execution_step_completed'', step_id step)]"
    "sleeps w1 = sleeps w" "frames w1 = max (frames w) (Suc d)"
    "filter is_restore (calls w1) = filter is_restore (calls w)"
    "ctx1 = ctx \<or> (phase step = BACKUP \<and> (\<exists>b. ctx1 = ctx\<lparr>backup_data := b\<rparr>))"
    by (auto simp: log_event_def)
qed

lemma attempt_Inl:
  assumes "attempt gw hs d step ctx w = (Inl e, step1, ctx1, w1)"
  shows "status step1 = RUNNING" "step_id step1 = step_id step" "name step1 = name step"
    "phase step1 = phase step" "order step1 = order step"
    "retry_count step1 = retry_count step" "max_retries step1 = max_retries step"
    "events w1 = events w"
    "sleeps w1 = sleeps w" "frames w1 = max (frames w) (Suc d)"
    "filter is_restore (calls w1) = filter is_restore (calls w)"
    "ctx1 = ctx \<or> (phase step = BACKUP \<and> (\<exists>b. ctx1 = ctx\<lparr>backup_data := b\<rparr>))"
proof -
  from assms have
    rp: "run_phase gw hs (phase step) (step\<lparr>status := RUNNING\<rparr>) ctx
           (w\<lparr>frames := max (frames w) (Suc d)\<rparr>) = (Inl e, step1, ctx1, w1)"
    by (cases rule: attempt_cases [of gw hs step ctx w d ctx1 "Inl e" step1 w1]) auto
  note a = run_phase_step [OF rp] run_phase_world [OF rp] run_phase_ctx [OF rp]
    run_phase_retry_fields [OF rp]
  from a show "status step1 = RUNNING" "step_id step1 = step_id step"
    "name step1 = name step" "phase step1 = phase step" "order step1 = order step"
    "retry_count step1 = retry_count step" "max_retries step1 = max_retries step"
    "events w1 = events w"
    "sleeps w1 = sleeps w" "frames w1 = max (frames w) (Suc d)"
    "filter is_restore (calls w1) = filter is_restore (calls w)"
    "ctx1 = ctx \<or> (phase step = BACKUP \<and> (\<exists>b. ctx1 = ctx\<lparr>backup_data := b\<rparr>))"
    by auto
qed

lemma execute_step_return:
  "attempt gw hs d step ctx w = (Inr u, step1, ctx1, w1) \<Longrightarrow>
     execute_step gw hs d step ctx w = (Inr (), step1, ctx1, w1)"
  by (simp add: execute_step.simps)

lemma execute_step_retry:
  "attempt gw hs d step ctx w = (Inl e, step1, ctx1, w1) \<Longrightarrow>
   retry_count step1 + 1 < max_retries step1 \<Longrightarrow>
     execute_step gw hs d step ctx w =
       execute_step gw hs (Suc d) (record_failure e step1) ctx1
         (backoff (record_failure e step1)
            (log_event ''execution_step_failed'' (step_id step1) w1))"
  by (subst execute_step.simps) (simp add: record_failure_def Let_def)

lemma execute_step_raise:
  "attempt gw hs d step ctx w = (Inl e, step1, ctx1, w1) \<Longrightarrow>
   \<not> retry_count step1 + 1 < max_retries step1 \<Longrightarrow>
     execute_step gw hs d step ctx w =
       (Inl e, record_failure e step1, ctx1,
        log_event ''execution_step_failed'' (step_id step1) w1)"
  by (subst execute_step.simps) (simp add: record_failure_def Let_def)

lemma execute_step_induct [case_names attempt]:
  assumes "\<And>gw hs d step ctx w.
     (\<And>e step1 ctx1 w1.
        attempt gw hs d step ctx w = (Inl e, step1, ctx1, w1) \<Longrightarrow>
        retry_count step1 + 1 < max_retries step1 \<Longrightarrow>
        P gw hs (Suc d) (record_failure e step1) ctx1
          (backoff (record_failure e step1)
             (log_event ''execution_step_failed'' (step_id step1) w1)))
     \<Longrightarrow> P gw hs d step ctx w"
  shows "P gw hs d step ctx w"
proof (induction gw hs d step ctx w rule: execute_step.induct)
  case (1 gw hs d step ctx w)
  show ?case
  proof (rule assms)
    fix e step1 ctx1 w1
    assume a: "attempt gw hs d step ctx w = (Inl e, step1, ctx1, w1)"
      and b: "retry_count step1 + 1 < max_retries step1"
    show "P gw hs (Suc d) (record_failure e step1) ctx1
          (backoff (record_failure e step1)
             (log_event ''execution_step_failed'' (step_id step1) w1))"
    proof -
      have "P gw hs (Suc d) (record_failure e step1) ctx1
          (backoff (record_failure e step1)
             (log_event ''execution_step_failed'' (step_id (record_failure e step1)) w1))"
        by (rule "1.IH" [OF a [symmetric] refl refl refl refl refl])
           (simp add: record_failure_def b)
      then show ?thesis by (simp add: record_failure_def)
    qed
  qed
qed

lemma execute_step_cases [consumes 1, case_names return retry raise]:
  assumes "execute_step gw hs d step ctx w = res"
  obtains (return) u step1 ctx1 w1 where
      "attempt gw hs d step ctx w = (Inr u, step1, ctx1, w1)"
      "res = (Inr (), step1, ctx1, w1)"
  | (retry) e step1 ctx1 w1 where
      "attempt gw hs d step ctx w = (Inl e, step1, ctx1, w1)"
      "retry_count step1 + 1 < max_retries step1"
      "execute_step gw hs (Suc d) (record_failure e step1) ctx1
         (backoff (record_failure e step1)
            (log_event ''execution_step_failed'' (step_id step1) w1)) = res"
  | (raise) e step1 ctx1 w1 where
      "attempt gw hs d step ctx w = (Inl e, step1, ctx1, w1)"
      "\<not> retry_count step1 + 1 < max_retries step1"
      "res = (Inl e, record_failure e step1, ctx1,
              log_event ''execution_step_failed'' (step_id step1) w1)"
proof -
  obtain r0 step1 ctx1 w1 where a: "attempt gw hs d step ctx w = (r0, step1, ctx1, w1)"
    by (metis prod_cases4)
  show thesis
  proof (cases r0)
    case (Inr u)
    with a have a': "attempt gw hs d step ctx w = (Inr u, step1, ctx1, w1)" by simp
    from execute_step_return [OF a'] assms have "res = (Inr (), step1, ctx1, w1)" by simp
    from return [OF a' this] show thesis .
  next
    case (Inl e)
    with a have a': "attempt gw hs d step ctx w = (Inl e, step1, ctx1, w1)" by simp
    show thesis
    proof (cases "retry_count step1 + 1 < max_retries step1")
      case True
      from execute_step_retry [OF a' True] assms
      have "execute_step gw hs (Suc d) (record_failure e step1) ctx1
         (backoff (record_failure e step1)
            (log_event ''execution_step_failed'' (step_id step1) w1)) = res" by simp
      from retry [OF a' True this] show thesis .
    next
      case False
      from execute_step_raise [OF a' False] assms
      have "res = (Inl e, record_failure e step1, ctx1,
              log_event ''execution_step_failed'' (step_id step1) w1)" by simp
      from raise [OF a' False this] show thesis .
    qed
  qed
qed

lemma execute_step_result:
  "execute_step gw hs d step ctx w = (r, step', ctx', w') \<Longrightarrow>
     (case r of
        Inr u \<Rightarrow> status step' = COMPLETED
      | Inl e \<Rightarrow> status step' = FAILED \<and> max_retries step' \<le> retry_count step'
                 \<and> error_message step' = Some (str_exc e))"
proof (induction gw hs d step ctx w rule: execute_step_induct)
  case (attempt gw hs d step ctx w)
  from attempt.prems show ?case
  proof (cases rule: execute_step_cases)
    case (return u step1 ctx1 w1)
    with attempt_Inr(1) [OF return(1)] show ?thesis by simp
  next
    case (retry e step1 ctx1 w1)
    from attempt.IH [OF retry] show ?thesis .
  next
    case (raise e step1 ctx1 w1)
    then show ?thesis by (simp add: record_failure_def)
  qed
qed

lemma execute_step_fields:
  "execute_step gw hs d step ctx w = (r, step', ctx', w') \<Longrightarrow>
     step_id step' = step_id step \<and> name step' = name step \<and> phase step' = phase step
     \<and> order step' = order step \<and> max_retries step' = max_retries step"
proof (induction gw hs d step ctx w rule: execute_step_induct)
  case (attempt gw hs d step ctx w)
  from attempt.prems show ?case
  proof (cases rule: execute_step_cases)
    case (return u step1 ctx1 w1)
    with attempt_Inr [OF return(1)] show ?thesis by simp
  next
    case (retry e step1 ctx1 w1)
    from attempt.IH [OF retry] attempt_Inl [OF retry(1)] show ?thesis
      by (simp add: record_failure_def)
  next
    case (raise e step1 ctx1 w1)
    with attempt_Inl [OF raise(1)] show ?thesis by (simp add: record_failure_def)
  qed
qed


lemma execute_step_context:
  "execute_step gw hs d step ctx w = (r, step', ctx', w') \<Longrightarrow>
     ctx' = ctx \<or> (phase step = BACKUP \<and> (\<exists>b. ctx' = ctx\<lparr>backup_data := b\<rparr>))"
proof (induction gw hs d step ctx w rule: execute_step_induct)
  case (attempt gw hs d step ctx w)
  from attempt.prems show ?case
  proof (cases rule: execute_step_cases)
    case (return u step1 ctx1 w1)
    with attempt_Inr(12) [OF return(1)] show ?thesis by auto
  next
    case (retry e step1 ctx1 w1)
    from attempt.IH [OF retry]
    have "ctx' = ctx1 \<or> (phase step1 = BACKUP \<and> (\<exists>b. ctx' = ctx1\<lparr>backup_data := b\<rparr>))"
      by (simp add: record_failure_def)
    with attempt_Inl(4,12) [OF retry(1)] show ?thesis by auto
  next
    case (raise e step1 ctx1 w1)
    with attempt_Inl(12) [OF raise(1)] show ?thesis by auto
  qed
qed

lemma execute_step_sleeps:
  "execute_step gw hs d step ctx w = (r, step', ctx', w') \<Longrightarrow>
     \<exists>ss. sleeps w' = sleeps w @ ss
       \<and> (\<forall>s \<in> set ss. status s = FAILED \<and> retry_count s < max_retries s
                         \<and> step_id s = step_id step)"
proof (induction gw hs d step ctx w rule: execute_step_induct)
  case (attempt gw hs d step ctx w)
  from attempt.prems show ?case
  proof (cases rule: execute_step_cases)
    case (return u step1 ctx1 w1)
    with attempt_Inr [OF return(1)] show ?thesis by simp
  next
    case (retry e step1 ctx1 w1)
    from attempt.IH [OF retry] obtain ss where
      ss: "sleeps w' = sleeps (backoff (record_failure e step1)
             (log_event ''execution_step_failed'' (step_id step1) w1)) @ ss"
      "\<forall>s \<in> set ss. status s = FAILED \<and> retry_count s < max_retries s
                         \<and> step_id s = step_id (record_failure e step1)"
      by blast
    from ss retry(2) attempt_Inl [OF retry(1)]
    have "sleeps w' = sleeps w @ (record_failure e step1 # ss)
       \<and> (\<forall>s \<in> set (record_failure e step1 # ss).
             status s = FAILED \<and> retry_count s < max_retries s \<and> step_id s = step_id step)"
      by (simp add: backoff_def log_event_def record_failure_def)
    then show ?thesis by blast
  next
    case (raise e step1 ctx1 w1)
    with attempt_Inl [OF raise(1)] show ?thesis by (simp add: log_event_def)
  qed
qed

lemma execute_step_count:
  "execute_step gw hs d step ctx w = (r, step', ctx', w') \<Longrightarrow>
     \<exists>n. 1 \<le> n \<and> (n = 1 \<or> int n \<le> max_retries step - retry_count step)
       \<and> length (events w') = length (events w) + n
       \<and> length (sleeps w') = length (sleeps w) + (n - 1)
       \<and> frames w' = max (frames w) (d + n)
       \<and> retry_count step' = retry_count step + int n - (case r of Inr u \<Rightarrow> 1 | Inl e \<Rightarrow> 0)"
proof (induction gw hs d step ctx w rule: execute_step_induct)
  case (attempt gw hs d step ctx w)
  from attempt.prems show ?case
  proof (cases rule: execute_step_cases)
    case (return u step1 ctx1 w1)
    with attempt_Inr [OF return(1)] show ?thesis
      by (intro exI [of _ 1]) simp
  next
    case (retry e step1 ctx1 w1)
    let ?s = "record_failure e step1"
    let ?w = "backoff ?s (log_event ''execution_step_failed'' (step_id step1) w1)"
    from attempt.IH [OF retry] obtain n where
      n: "1 \<le> n" "n = 1 \<or> int n \<le> max_retries ?s - retry_count ?s"
      "length (events w') = length (events ?w) + n"
      "length (sleeps w') = length (sleeps ?w) + (n - 1)"
      "frames w' = max (frames ?w) (Suc d + n)"
      "retry_count step' = retry_count ?s + int n - (case r of Inr u \<Rightarrow> 1 | Inl e \<Rightarrow> 0)"
      by blast
    note a = attempt_Inl [OF retry(1)]
    from n a retry(2) show ?thesis
      by (intro exI [of _ "Suc n"])
         (auto simp: backoff_def log_event_def record_failure_def)
  next
    case (raise e step1 ctx1 w1)
    with attempt_Inl [OF raise(1)] show ?thesis
      by (intro exI [of _ 1]) (simp add: log_event_def record_failure_def)
  qed
qed

lemma fails_then_succeeds_completes:
  "fails_then_succeeds k gw hs d step ctx w \<Longrightarrow>
   retry_count step + int k < max_retries step \<or> k = 0 \<Longrightarrow>
     \<exists>step' ctx' w'. execute_step gw hs d step ctx w = (Inr (), step', ctx', w')
        \<and> status step' = COMPLETED \<and> retry_count step' = retry_count step + int k"
proof (induction k arbitrary: d step ctx w)
  case 0
  then obtain u step1 ctx1 w1 where a: "attempt gw hs d step ctx w = (Inr u, step1, ctx1, w1)"
    by (auto split: prod.splits sum.splits)
  from execute_step_return [OF a] attempt_Inr [OF a] show ?case by simp
next
  case (Suc k)
  from Suc.prems(1) obtain e step1 ctx1 w1 where
    a: "attempt gw hs d step ctx w = (Inl e, step1, ctx1, w1)"
    and f: "fails_then_succeeds k gw hs (Suc d) (record_failure e step1) ctx1
            (backoff (record_failure e step1)
               (log_event ''execution_step_failed'' (step_id step1) w1))"
    by (auto split: prod.splits sum.splits)
  note b = attempt_Inl [OF a]
  from Suc.prems(2) b have lt: "retry_count step1 + 1 < max_retries step1" by simp
  from Suc.prems(2) b
  have "retry_count (record_failure e step1) + int k < max_retries (record_failure e step1)
          \<or> k = 0"
    by (simp add: record_failure_def)
  from Suc.IH [OF f this] execute_step_retry [OF a lt] b show ?case
    by (auto simp: record_failure_def)
qed

lemma run_steps_Cons_cases [consumes 1, case_names continue abort]:
  assumes "run_steps gw hs (step # rest) ctx w = (r, started, ctx', w')"
  obtains (continue) u step1 ctx1 w1 started' where
      "execute_step gw hs 0 step ctx w = (Inr u, step1, ctx1, w1)"
      "status step1 = COMPLETED"
      "run_steps gw hs rest (ctx1\<lparr>execution_log := execution_log ctx1 @ [log_entry step1]\<rparr>) w1
         = (r, started', ctx', w')"
      "started = step1 # started'"
  | (abort) e step1 w1 where
      "execute_step gw hs 0 step ctx w = (Inl e, step1, ctx', w1)"
      "r = Inl rollback_call_error" "started = [step1]"
      "w' = log_event ''execution_step_failed'' (step_id step1) w1"
proof -
  obtain r0 step1 ctx1 w1 where e: "execute_step gw hs 0 step ctx w = (r0, step1, ctx1, w1)"
    by (metis prod_cases4)
  show thesis
  proof (cases r0)
    case (Inr u)
    with e have e': "execute_step gw hs 0 step ctx w = (Inr u, step1, ctx1, w1)" by simp
    from execute_step_result [OF e'] have c: "status step1 = COMPLETED" by simp
    obtain r1 started' ctx3 w3 where
      rs: "run_steps gw hs rest (ctx1\<lparr>execution_log := execution_log ctx1 @ [log_entry step1]\<rparr>)
             w1 = (r1, started', ctx3, w3)"
      by (metis prod_cases4)
    from assms e' c rs have "r = r1" "started = step1 # started'" "ctx' = ctx3" "w' = w3"
      by (simp_all add: Let_def)
    with rs continue [OF e' c] show thesis by simp
  next
    case (Inl x)
    with e have e': "execute_step gw hs 0 step ctx w = (Inl x, step1, ctx1, w1)" by simp
    from assms e' have "r = Inl rollback_call_error" "started = [step1]" "ctx' = ctx1"
      "w' = log_event ''execution_step_failed'' (step_id step1) w1"
      by simp_all
    with e' abort show thesis by simp
  qed
qed


lemma run_steps_backup_data:
  "run_steps gw hs steps ctx w = (r, started, ctx', w') \<Longrightarrow>
     backup_data ctx' = backup_data ctx \<or> (\<exists>s \<in> set started. phase s = BACKUP)"
proof (induction steps arbitrary: ctx w started)
  case Nil
  then show ?case by simp
next
  case (Cons step rest)
  from Cons.prems show ?case
  proof (cases rule: run_steps_Cons_cases)
    case (continue u step1 ctx1 w1 started')
    from execute_step_context [OF continue(1)] execute_step_fields [OF continue(1)]
    have "backup_data ctx1 = backup_data ctx \<or> phase step1 = BACKUP"
      by auto
    with Cons.IH [OF continue(3)] continue(4) show ?thesis by auto
  next
    case (abort e step1 w1)
    with execute_step_context [OF abort(1)] execute_step_fields [OF abort(1)] show ?thesis
      by auto
  qed
qed

lemma run_steps_started:
  "run_steps gw hs steps ctx w = (r, started, ctx', w') \<Longrightarrow>
     map step_id started = take (length started) (map step_id steps)
     \<and> map order started = take (length started) (map order steps)
     \<and> (\<forall>s \<in> set (butlast started). status s = COMPLETED)
     \<and> (case r of
          Inr u \<Rightarrow> length started = length steps \<and> (\<forall>s \<in> set started. status s = COMPLETED)
        | Inl e \<Rightarrow> e = rollback_call_error \<and> started \<noteq> [] \<and> status (last started) = FAILED)"
proof (induction steps arbitrary: ctx w started)
  case Nil
  then show ?case by auto
next
  case (Cons step rest)
  from Cons.prems show ?case
  proof (cases rule: run_steps_Cons_cases)
    case (continue u step1 ctx1 w1 started')
    from Cons.IH [OF continue(3)] execute_step_fields [OF continue(1)] continue(2,4)
    show ?thesis by (cases r) auto
  next
    case (abort e step1 w1)
    with execute_step_fields [OF abort(1)] execute_step_result [OF abort(1)] show ?thesis
      by simp
  qed
qed

lemma OptimizationStatus_no_ROLLED_BACK:
  "OptimizationStatus_attr ''ROLLED_BACK'' = Inl (AttributeError ''ROLLED_BACK'')"
  by (simp add: OptimizationStatus_attr_def)


lemma handle_execution_failure_record:
  "handle_execution_failure gw ex ctx msg w = (ex', w') \<Longrightarrow>
     ex' = ex\<lparr>exec_status := OS_FAILED, exec_error_message := Some msg\<rparr>"
  by (auto simp: handle_execution_failure_def Let_def OptimizationStatus_no_ROLLED_BACK
      split: prod.splits if_splits)


lemma create_execution_steps_value:
  "hs (optimization_type ctx) = Some h \<Longrightarrow>
     create_execution_steps hs ctx opp =
       Inr (take 4 (base_steps ctx opp) @ call_handler h ctx @ drop 4 (base_steps ctx opp))"
  by (cases h)
     (simp_all add: create_execution_steps_def get_optimization_specific_steps_def
        base_steps_def new_step_def execute_rightsizing_def execute_scheduling_def
        execute_unused_resource_removal_def execute_storage_optimization_def
        execute_reserved_instance_purchase_def execute_spot_instance_migration_def)



subsection \<open>Target configuration\<close>

lemma calculate_target_config_at_value:
  assumes "cells st a = Some cur" and "a < next_addr st"
  shows "\<exists>st'. calculate_target_config_at st opp a = Some (next_addr st, st')
           \<and> cells st' a = Some cur
           \<and> cells st' (next_addr st) = Some (calculate_target_config opp cur)"
  using assms
  by (cases "opp_optimization_type opp")
     (simp_all add: calculate_target_config_at_def calculate_target_config_def
        dict_copy_def dict_setitem_def)

lemma calculate_target_config_frame:
  "Some k \<noteq> specific_key (opp_optimization_type opp) \<Longrightarrow>
     map_of (calculate_target_config opp cur) k = map_of cur k"
  by (cases "opp_optimization_type opp")
     (auto simp: calculate_target_config_def update_conv')

lemma calculate_target_config_other:
  "specific_key (opp_optimization_type opp) = None \<Longrightarrow> calculate_target_config opp cur = cur"
  by (cases "opp_optimization_type opp") (simp_all add: calculate_target_config_def)

text \<open>
  Claim C10. For every opportunity and every current configuration, held at an allocated
  address of the store, \<^verbatim>\<open>_calculate_target_config\<close> returns a dict that agrees with the
  current configuration on every key except at most the key of the optimization type
  (\<^verbatim>\<open>instance_type\<close> for rightsizing, \<^verbatim>\<open>scheduling\<close> for scheduling,
  \<^verbatim>\<open>storage_class\<close> for storage optimization); for every other type the returned
  dict equals the current configuration; and the dict that was passed in is the same
  after the call as before it.
\<close>

theorem calculate_target_config_frame_effect:
  assumes "cells st a = Some cur" and "a < next_addr st"
  shows "\<exists>t st' tgt. calculate_target_config_at st opp a = Some (t, st')
           \<and> cells st' a = Some cur
           \<and> cells st' t = Some tgt
           \<and> (\<forall>k. Some k \<noteq> specific_key (opp_optimization_type opp)
                  \<longrightarrow> map_of tgt k = map_of cur k)
           \<and> (specific_key (opp_optimization_type opp) = None \<longrightarrow> tgt = cur)"
proof -
  from calculate_target_config_at_value [OF assms, of opp]
  obtain st' where r: "calculate_target_config_at st opp a = Some (next_addr st, st')"
    and keep: "cells st' a = Some cur"
    and tgt: "cells st' (next_addr st) = Some (calculate_target_config opp cur)"
    by blast
  have frame: "\<forall>k. Some k \<noteq> specific_key (opp_optimization_type opp)
                  \<longrightarrow> map_of (calculate_target_config opp cur) k = map_of cur k"
    by (simp add: calculate_target_config_frame)
  have other: "specific_key (opp_optimization_type opp) = None
                  \<longrightarrow> calculate_target_config opp cur = cur"
    by (simp add: calculate_target_config_other)
  from r keep tgt frame other show ?thesis
    by (intro exI [of _ "next_addr st"] exI [of _ st']
          exI [of _ "calculate_target_config opp cur"]) simp
qed

theorem calculate_target_config_frame_effect_witness:
  "cells store_abc 0 = Some (current_config ctx_abc) \<and> 0 < next_addr store_abc
   \<and> (\<exists>t st' tgt. calculate_target_config_at store_abc opp_abc 0 = Some (t, st')
         \<and> cells st' 0 = Some (current_config ctx_abc)
         \<and> cells st' t = Some tgt
         \<and> map_of tgt ''status'' = map_of (current_config ctx_abc) ''status'')"
proof -
  have c: "cells store_abc 0 = Some (current_config ctx_abc)"
    by (simp add: store_abc_def)
  have n: "0 < next_addr store_abc"
    by (simp add: store_abc_def)
  have k: "Some ''status'' \<noteq> specific_key (opp_optimization_type opp_abc)"
    by (simp add: opp_abc_def)
  from calculate_target_config_frame_effect [OF c n, of opp_abc] k c n show ?thesis
    by blast
qed

subsection \<open>Retries of a step\<close>

text \<open>
  Claim C4, as the code has it. The status of a step is \<^verbatim>\<open>FAILED\<close> when
  \<^verbatim>\<open>_execute_step\<close> has ended exactly if the call raised, and then \<^verbatim>\<open>retry_count\<close> has
  reached \<^verbatim>\<open>max_retries\<close>. But every failed attempt sets the status to \<^verbatim>\<open>FAILED\<close> at
  once: during each sleep before a retry the step is \<^verbatim>\<open>FAILED\<close> with
  \<^verbatim>\<open>retry_count < max_retries\<close>.
\<close>

theorem step_failed_status:
  assumes "execute_step gw hs d step ctx w = (r, step', ctx', w')"
  shows "(status step' = FAILED \<longleftrightarrow> (\<exists>e. r = Inl e))
       \<and> (status step' = FAILED \<longrightarrow> max_retries step' \<le> retry_count step')
       \<and> (\<exists>ss. sleeps w' = sleeps w @ ss
              \<and> (\<forall>s \<in> set ss. status s = FAILED \<and> retry_count s < max_retries s))"
proof -
  from execute_step_result [OF assms]
  have a: "(status step' = FAILED \<longleftrightarrow> (\<exists>e. r = Inl e))"
    and b: "(status step' = FAILED \<longrightarrow> max_retries step' \<le> retry_count step')"
    by (cases r; simp)+
  from execute_step_sleeps [OF assms]
  have c: "\<exists>ss. sleeps w' = sleeps w @ ss
              \<and> (\<forall>s \<in> set ss. status s = FAILED \<and> retry_count s < max_retries s)"
    by blast
  from a b c show ?thesis by blast
qed

theorem step_failed_status_witness:
  "fst (execute_step failing_backup register_execution_handlers 0 backup_step ctx_abc world0)
     = Inl (Exception ''I/O error'')
   \<and> status (fst (snd (execute_step failing_backup register_execution_handlers 0 backup_step
                        ctx_abc world0))) = FAILED
   \<and> max_retries (fst (snd (execute_step failing_backup register_execution_handlers 0 backup_step
                        ctx_abc world0)))
       \<le> retry_count (fst (snd (execute_step failing_backup register_execution_handlers 0
                        backup_step ctx_abc world0)))"
proof -
  have r: "fst (execute_step failing_backup register_execution_handlers 0 backup_step ctx_abc
             world0) = Inl (Exception ''I/O error'')"
    by code_simp
  have e: "execute_step failing_backup register_execution_handlers 0 backup_step ctx_abc world0
         = (fst (execute_step failing_backup register_execution_handlers 0 backup_step ctx_abc
                   world0),
            fst (snd (execute_step failing_backup register_execution_handlers 0 backup_step
                   ctx_abc world0)),
            fst (snd (snd (execute_step failing_backup register_execution_handlers 0 backup_step
                   ctx_abc world0))),
            snd (snd (snd (execute_step failing_backup register_execution_handlers 0 backup_step
                   ctx_abc world0))))"
    by simp
  from step_failed_status [OF e] r show ?thesis by simp
qed

text \<open>Against claim C4 as stated: a backup step that fails twice and then succeeds is
  \<^verbatim>\<open>FAILED\<close> during both sleeps, with retry counts 1 and 2 below the limit 3.\<close>

theorem step_failed_status_counterexample:
  "map status (sleeps (snd (snd (snd (execute_step (flaky_backup 2) register_execution_handlers 0
      backup_step ctx_abc world0))))) = [FAILED, FAILED]
   \<and> map retry_count (sleeps (snd (snd (snd (execute_step (flaky_backup 2)
      register_execution_handlers 0 backup_step ctx_abc world0))))) = [1, 2]
   \<and> map max_retries (sleeps (snd (snd (snd (execute_step (flaky_backup 2)
      register_execution_handlers 0 backup_step ctx_abc world0))))) = [3, 3]"
  by code_simp

text \<open>
  Claim C5, as the code has it. \<^verbatim>\<open>_execute_step\<close> always ends. It makes \<open>n\<close> attempts,
  one event each, where \<open>n\<close> is 1 or at most \<^verbatim>\<open>max_retries - retry_count\<close>, so a fresh
  step with \<^verbatim>\<open>max_retries \<ge> 0\<close> is attempted at most \<^verbatim>\<open>max_retries + 1\<close> times. Every
  exception adds one to \<^verbatim>\<open>retry_count\<close>. The retry is a call of \<^verbatim>\<open>_execute_step\<close> from
  its own \<^verbatim>\<open>except\<close> block: the number of frames grows by one with each retry and
  reaches \<open>d + n\<close>. When the call raises, the step is \<^verbatim>\<open>FAILED\<close>, its
  \<^verbatim>\<open>error_message\<close> is the text of the exception, and \<^verbatim>\<open>retry_count\<close> has reached
  \<^verbatim>\<open>max_retries\<close>.
\<close>

theorem step_retry_bounded:
  assumes "execute_step gw hs d step ctx w = (r, step', ctx', w')"
  shows "\<exists>n. 1 \<le> n \<and> (n = 1 \<or> int n \<le> max_retries step - retry_count step)
       \<and> length (events w') = length (events w) + n
       \<and> frames w' = max (frames w) (d + n)
       \<and> retry_count step' = retry_count step + int n - (case r of Inr u \<Rightarrow> 1 | Inl e \<Rightarrow> 0)
       \<and> (case r of
            Inr u \<Rightarrow> status step' = COMPLETED
          | Inl e \<Rightarrow> status step' = FAILED \<and> error_message step' = Some (str_exc e)
                     \<and> max_retries step \<le> retry_count step')"
proof -
  from execute_step_count [OF assms] obtain n where
    n: "1 \<le> n" "n = 1 \<or> int n \<le> max_retries step - retry_count step"
       "length (events w') = length (events w) + n"
       "frames w' = max (frames w) (d + n)"
       "retry_count step' = retry_count step + int n - (case r of Inr u \<Rightarrow> 1 | Inl e \<Rightarrow> 0)"
    by blast
  from execute_step_result [OF assms] execute_step_fields [OF assms]
  have "case r of
            Inr u \<Rightarrow> status step' = COMPLETED
          | Inl e \<Rightarrow> status step' = FAILED \<and> error_message step' = Some (str_exc e)
                     \<and> max_retries step \<le> retry_count step'"
    by (cases r) simp_all
  with n show ?thesis by blast
qed

theorem step_retry_bounded_witness:
  "fst (execute_step failing_backup register_execution_handlers 0 backup_step ctx_abc world0)
     = Inl (Exception ''I/O error'')
   \<and> (\<exists>n. 1 \<le> n \<and> (n = 1 \<or> int n \<le> max_retries backup_step - retry_count backup_step)
          \<and> frames (snd (snd (snd (execute_step failing_backup register_execution_handlers 0
                backup_step ctx_abc world0)))) = max (frames world0) (0 + n)
          \<and> status (fst (snd (execute_step failing_backup register_execution_handlers 0
                backup_step ctx_abc world0))) = FAILED)"
proof -
  have r: "fst (execute_step failing_backup register_execution_handlers 0 backup_step ctx_abc
             world0) = Inl (Exception ''I/O error'')"
    by code_simp
  have e: "execute_step failing_backup register_execution_handlers 0 backup_step ctx_abc world0
         = (fst (execute_step failing_backup register_execution_handlers 0 backup_step ctx_abc
                   world0),
            fst (snd (execute_step failing_backup register_execution_handlers 0 backup_step
                   ctx_abc world0)),
            fst (snd (snd (execute_step failing_backup register_execution_handlers 0 backup_step
                   ctx_abc world0))),
            snd (snd (snd (execute_step failing_backup register_execution_handlers 0 backup_step
                   ctx_abc world0))))"
    by simp
  from step_retry_bounded [OF e] r show ?thesis by auto
qed

text \<open>Against claim C5 as stated, which has the retry as a loop in one frame: a backup
  step that fails twice and then succeeds has three frames of \<^verbatim>\<open>_execute_step\<close> active
  at once.\<close>

theorem step_retry_bounded_counterexample:
  "frames (snd (snd (snd (execute_step (flaky_backup 2) register_execution_handlers 0
      backup_step ctx_abc world0)))) = 3"
  by code_simp

text \<open>
  Claim C6. A fresh step whose first \<open>k\<close> attempts raise, with \<open>k\<close> below
  \<^verbatim>\<open>max_retries\<close>, and whose next attempt returns: \<^verbatim>\<open>_execute_step\<close> returns, the step
  is \<^verbatim>\<open>COMPLETED\<close> and its \<^verbatim>\<open>retry_count\<close> is \<open>k\<close>.
\<close>

theorem step_retry_then_success:
  assumes "fails_then_succeeds k gw hs d step ctx w"
    and "retry_count step = 0" and "int k < max_retries step"
  shows "\<exists>step' ctx' w'. execute_step gw hs d step ctx w = (Inr (), step', ctx', w')
           \<and> status step' = COMPLETED \<and> retry_count step' = int k"
  using fails_then_succeeds_completes [OF assms(1), of] assms(2,3) by simp

theorem step_retry_then_success_witness:
  "fails_then_succeeds 2 (flaky_backup 2) register_execution_handlers 0 backup_step ctx_abc world0
   \<and> retry_count backup_step = 0 \<and> int 2 < max_retries backup_step
   \<and> (\<exists>step' ctx' w'.
         execute_step (flaky_backup 2) register_execution_handlers 0 backup_step ctx_abc world0
           = (Inr (), step', ctx', w')
         \<and> status step' = COMPLETED \<and> retry_count step' = int 2)"
proof -
  have f: "fails_then_succeeds 2 (flaky_backup 2) register_execution_handlers 0 backup_step
             ctx_abc world0"
    by code_simp
  have r: "retry_count backup_step = 0"
    by (simp add: backup_step_def new_step_def)
  have m: "int 2 < max_retries backup_step"
    by (simp add: backup_step_def new_step_def)
  from step_retry_then_success [OF f r m] f r m show ?thesis by blast
qed

subsection \<open>The pipeline and its failure\<close>

lemma admit_Inr:
  assumes "admit gw uuid opp approver eng w = (Inr (ex, ctx0), eng1, w1)"
  shows "ex = new_execution uuid opp approver" "backup_data ctx0 = []"
    "execution_id ctx0 = uuid" "resource_id ctx0 = opp_resource_id opp"
    "cloud_provider ctx0 = CloudProvider_value (opp_cloud_provider opp)"
    "optimization_type ctx0 = OptimizationType_value (opp_optimization_type opp)"
    "execution_handlers eng1 = execution_handlers eng"
    "active_executions eng1 = (active_executions eng)(uuid \<mapsto>
        \<lparr>entry_execution = ex, entry_context = ctx0, entry_status = RUNNING\<rparr>)"
    "calls w1 = calls w @ [GetResourceConfig (opp_resource_id opp)
                             (CloudProvider_value (opp_cloud_provider opp))]"
    "events w1 = events w @ [(''optimization_execution_started'', opp_id opp)]"
  using assms
  by (auto simp: admit_def Let_def create_execution_context_def call_get_resource_config_def
        called_def log_event_def new_execution_def
      split: prod.splits sum.splits)

lemma run_execution_pipeline_cases [consumes 1, case_names no_handler built]:
  assumes "run_execution_pipeline gw hs ctx opp w = (r, started, ctx', w')"
  obtains (no_handler) "hs (optimization_type ctx) = None"
      "r = Inl (no_handler_found (optimization_type ctx))"
      "started = []" "ctx' = ctx" "w' = w"
  | (built) h steps where "hs (optimization_type ctx) = Some h"
      "create_execution_steps hs ctx opp = Inr steps"
      "run_steps gw hs steps ctx w = (r, started, ctx', w')"
proof (cases "hs (optimization_type ctx)")
  case None
  with assms have
    "r = Inl (no_handler_found (optimization_type ctx))"
    "started = []" "ctx' = ctx" "w' = w"
    by (auto simp: run_execution_pipeline_def create_execution_steps_def
        get_optimization_specific_steps_def)
  from no_handler [OF None this] show thesis .
next
  case (Some h)
  from create_execution_steps_value [of hs ctx h opp] Some
  obtain steps where s: "create_execution_steps hs ctx opp = Inr steps" by simp
  with assms have "run_steps gw hs steps ctx w = (r, started, ctx', w')"
    by (simp add: run_execution_pipeline_def)
  from built [OF Some s this] show thesis .
qed

lemma execute_optimization_failed [consumes 3]:
  assumes "execute_optimization gw uuid opp approver eng w = (out, eng', w')"
    and "raised out = Some e" and "final_context out = Some ctx"
  obtains ctx0 eng1 w1 w2 w3 where
    "admit gw uuid opp approver eng w = (Inr (new_execution uuid opp approver, ctx0), eng1, w1)"
    "run_execution_pipeline gw (execution_handlers eng) ctx0 opp w1
       = (Inl e, started_steps out, ctx, w2)"
    "handle_execution_failure gw (new_execution uuid opp approver) ctx (str_exc e) w2
       = (final_execution out, w3)"
    "w' = log_event ''optimization_execution_failed'' (opp_id opp) w3"
    "eng' = cleanup uuid eng1"
proof -
  obtain ra eng1 w1 where a: "admit gw uuid opp approver eng w = (ra, eng1, w1)"
    by (metis prod_cases3)
  show thesis
  proof (cases ra)
    case (Inl x)
    with a assms(1) have "final_context out = None"
      by (auto simp: execute_optimization_def)
    with assms(3) show thesis by simp
  next
    case (Inr p)
    obtain ex ctx0 where p: "p = (ex, ctx0)" by (cases p)
    with a Inr have a': "admit gw uuid opp approver eng w = (Inr (ex, ctx0), eng1, w1)" by simp
    note f = admit_Inr [OF a']
    obtain r steps ctx2 w2 where
      rp: "run_execution_pipeline gw (execution_handlers eng) ctx0 opp w1 = (r, steps, ctx2, w2)"
      by (metis prod_cases4)
    show thesis
    proof (cases r)
      case (Inr u)
      with a' rp f(7) assms(1) have "raised out = None"
        by (auto simp: execute_optimization_def)
      with assms(2) show thesis by simp
    next
      case (Inl x)
      obtain ex2 w3 where
        h: "handle_execution_failure gw ex ctx2 (str_exc x) w2 = (ex2, w3)"
        by (metis prod.exhaust)
      from a' rp f(7) Inl h assms(1)
      have o: "out = \<lparr>raised = Some x, final_execution = ex2,
                      final_context = Some ctx2, started_steps = steps\<rparr>"
        and w: "w' = log_event ''optimization_execution_failed'' (opp_id opp) w3"
        and c: "eng' = cleanup (exec_id ex) eng1"
        by (simp_all add: execute_optimization_def)
      from o assms(2,3) have "x = e" "ctx2 = ctx" by simp_all
      with that [of ctx0 eng1 w1 w2 w3] a' rp Inl h o w c f(1) show thesis
        by (simp add: new_execution_def)
    qed
  qed
qed

lemma run_execution_pipeline_error:
  assumes "run_execution_pipeline gw hs ctx opp w = (Inl e, started, ctx', w')"
  shows "e = rollback_call_error \<or> e = no_handler_found (optimization_type ctx)"
  using assms
proof (cases rule: run_execution_pipeline_cases)
  case no_handler
  then show ?thesis by simp
next
  case (built h steps)
  from run_steps_started [OF built(3)] show ?thesis by simp
qed

lemma rollback_execution_restore_error:
  assumes "backup_data ctx \<noteq> []"
    and "restore_resource_from_backup gw (calls w) (resource_id ctx) (cloud_provider ctx)
           (backup_data ctx) = Inl e"
  shows "rollback_execution gw ctx w =
           (False,
            w\<lparr>calls := calls w @ [RestoreResourceFromBackup (resource_id ctx) (cloud_provider ctx)
                                    (backup_data ctx)],
              events := events w @ [(''rollback_started'', execution_id ctx),
                                    (''rollback_failed'', execution_id ctx)]\<rparr>)"
  using assms
  by (simp add: rollback_execution_def Let_def log_event_def called_def
        call_restore_resource_from_backup_def)



text \<open>
  Claim C3, as the code has it. When the restore call of the gateway raises during the
  rollback, \<^verbatim>\<open>_handle_execution_failure\<close> returns: the exception is logged as
  \<^verbatim>\<open>rollback_failed\<close> and \<^verbatim>\<open>execution_rollback_failed\<close> and appears nowhere in the
  result. Whenever \<^verbatim>\<open>execute_optimization\<close> raises after the context was created, the
  exception is the one that left the pipeline, the \<^verbatim>\<open>TypeError\<close> of the pipeline's own
  rollback call or the \<^verbatim>\<open>ValueError\<close> of the builder, and the execution record has
  status \<^verbatim>\<open>FAILED\<close>; its \<^verbatim>\<open>rollback_completed\<close> is \<^verbatim>\<open>None\<close>, since the engine never
  assigns that attribute, whether a rollback failed or succeeded.
\<close>

theorem rollback_failure_absorbed:
  "(backup_data ctx \<noteq> []
      \<and> restore_resource_from_backup gw (calls w) (resource_id ctx) (cloud_provider ctx)
           (backup_data ctx) = Inl e
    \<longrightarrow> handle_execution_failure gw ex ctx msg w =
          (ex\<lparr>exec_status := OS_FAILED, exec_error_message := Some msg\<rparr>,
           w\<lparr>calls := calls w @ [RestoreResourceFromBackup (resource_id ctx) (cloud_provider ctx)
                                   (backup_data ctx)],
             events := events w @ [(''execution_failure_handling_started'', exec_id ex),
                                   (''rollback_started'', execution_id ctx),
                                   (''rollback_failed'', execution_id ctx),
                                   (''execution_rollback_failed'', exec_id ex)]\<rparr>))
   \<and> (execute_optimization gw uuid opp approver eng w0 = (out, eng', w') \<and> raised out = Some e'
        \<and> final_context out = Some ctx'
    \<longrightarrow> (e' = rollback_call_error
           \<or> e' = no_handler_found (OptimizationType_value (opp_optimization_type opp)))
        \<and> exec_status (final_execution out) = OS_FAILED
        \<and> rollback_completed (final_execution out) = None)"
proof (rule conjI; rule impI)
  assume a: "backup_data ctx \<noteq> []
      \<and> restore_resource_from_backup gw (calls w) (resource_id ctx) (cloud_provider ctx)
           (backup_data ctx) = Inl e"
  let ?w = "log_event ''execution_failure_handling_started'' (exec_id ex) w"
  from a have "restore_resource_from_backup gw (calls ?w) (resource_id ctx) (cloud_provider ctx)
           (backup_data ctx) = Inl e"
    by (simp add: log_event_def)
  from rollback_execution_restore_error [OF _ this] a
  show "handle_execution_failure gw ex ctx msg w =
          (ex\<lparr>exec_status := OS_FAILED, exec_error_message := Some msg\<rparr>,
           w\<lparr>calls := calls w @ [RestoreResourceFromBackup (resource_id ctx) (cloud_provider ctx)
                                   (backup_data ctx)],
             events := events w @ [(''execution_failure_handling_started'', exec_id ex),
                                   (''rollback_started'', execution_id ctx),
                                   (''rollback_failed'', execution_id ctx),
                                   (''execution_rollback_failed'', exec_id ex)]\<rparr>)"
    by (simp add: handle_execution_failure_def Let_def log_event_def)
next
  assume b: "execute_optimization gw uuid opp approver eng w0 = (out, eng', w')
      \<and> raised out = Some e' \<and> final_context out = Some ctx'"
  then have b1: "execute_optimization gw uuid opp approver eng w0 = (out, eng', w')"
    and b2: "raised out = Some e'" and b3: "final_context out = Some ctx'"
    by simp_all
  from b1 b2 b3
  show "(e' = rollback_call_error
           \<or> e' = no_handler_found (OptimizationType_value (opp_optimization_type opp)))
        \<and> exec_status (final_execution out) = OS_FAILED
        \<and> rollback_completed (final_execution out) = None"
  proof (cases rule: execute_optimization_failed)
    case (1 ctx0 eng1 w1 w2 w3)
    from run_execution_pipeline_error [OF 1(2)] admit_Inr(6) [OF 1(1)]
      handle_execution_failure_record [OF 1(3)]
    show ?thesis by (auto simp: new_execution_def)
  qed
qed

text \<open>The equations that evaluate a call of the engine on a concrete input.\<close>

lemmas run_defs =
  execute_optimization_def admit_def new_execution_def create_execution_context_def
  run_execution_pipeline_def create_execution_steps_def get_optimization_specific_steps_def
  base_steps_def new_step_def handle_execution_failure_def rollback_execution_def
  OptimizationStatus_attr_def cleanup_def initialize_def new_engine_def world0_def
  register_execution_handlers_def log_event_def called_def log_entry_def
  call_validate_connection_def call_resource_exists_def call_get_resource_config_def
  call_create_resource_backup_def call_restore_resource_from_backup_def
  call_update_resource_tags_def CloudProviderService_def failing_backup_def flaky_backup_def
  unreadable_after_backup_def opp_abc_def ctx_abc_def backup_step_def
  calculate_target_config_def calculate_optimal_instance_size_def
  calculate_optimal_storage_class_def verify_rollback_success_def
  verify_optimization_result_def validate_target_config_def validate_prerequisite_def
  execute_preparation_step_def execute_validation_step_def execute_backup_step_def
  execute_optimization_step_def execute_verification_step_def execute_completion_step_def
  set_metadata_def attempt_def record_failure_def backoff_def execute_step.simps
  execute_rightsizing_def no_handler_found_def rollback_call_error_def cancel_execution_def
  eng_one_running_def eng_two_running_def eng_after_backup_def unserialisable_backup_def
  json_char_len_def json_str_len_def json_int_len_def Let_def

subsection \<open>Concrete runs\<close>



text \<open>A backup step can also fail after the backup was stored: when the backup cannot
  be serialised the step ends \<^verbatim>\<open>FAILED\<close>, the context holds the backup, and the rollback
  issues a restore call.\<close>

lemma backup_stored_before_failure:
  "map phase (started_steps (fst run_unserialisable_backup)) = [PREPARATION, VALIDATION, BACKUP]
   \<and> map status (started_steps (fst run_unserialisable_backup))
       = [COMPLETED, COMPLETED, FAILED]
   \<and> map_option backup_data (final_context (fst run_unserialisable_backup))
       = Some [(''resource_id'', VStr ''i-abc''), (''taken_at'', VObject ''datetime'')]
   \<and> filter is_restore (calls (snd (snd run_unserialisable_backup)))
       = [RestoreResourceFromBackup ''i-abc'' ''aws''
            [(''resource_id'', VStr ''i-abc''), (''taken_at'', VObject ''datetime'')]]"
  by (simp add: run_unserialisable_backup_def run_defs)



text \<open>Claim C3 on the run in which the verification fails and the restore call raises.\<close>

theorem rollback_failure_absorbed_witness:
  "raised (fst run_restore_error) = Some rollback_call_error
   \<and> final_context (fst run_restore_error) \<noteq> None
   \<and> exec_status (final_execution (fst run_restore_error)) = OS_FAILED
   \<and> rollback_completed (final_execution (fst run_restore_error)) = None"
proof -
  have e: "execute_optimization (unreadable_after_backup (Inl (Exception ''RestoreError'')))
             ''e1'' opp_abc ''alice'' (initialize new_engine) world0
           = (fst run_restore_error, fst (snd run_restore_error), snd (snd run_restore_error))"
    by (simp add: run_restore_error_def)
  have r: "raised (fst run_restore_error) = Some rollback_call_error"
    by (simp add: run_restore_error_def run_defs)
  have n: "final_context (fst run_restore_error) \<noteq> None"
    by (simp add: run_restore_error_def run_defs)
  then obtain ctx where c: "final_context (fst run_restore_error) = Some ctx"
    by blast
  have "execute_optimization (unreadable_after_backup (Inl (Exception ''RestoreError'')))
             ''e1'' opp_abc ''alice'' (initialize new_engine) world0
           = (fst run_restore_error, fst (snd run_restore_error), snd (snd run_restore_error))
        \<and> raised (fst run_restore_error) = Some rollback_call_error
        \<and> final_context (fst run_restore_error) = Some ctx
    \<longrightarrow> (rollback_call_error = rollback_call_error
           \<or> rollback_call_error
                = no_handler_found (OptimizationType_value (opp_optimization_type opp_abc)))
        \<and> exec_status (final_execution (fst run_restore_error)) = OS_FAILED
        \<and> rollback_completed (final_execution (fst run_restore_error)) = None"
    by (rule conjunct2 [OF rollback_failure_absorbed])
  with e r c n show ?thesis by simp
qed

text \<open>Against claim C3 as stated: in that run a restore call was made and raised, the
  failure was logged, \<^verbatim>\<open>rollback_completed\<close> is \<^verbatim>\<open>None\<close>, and what the caller gets, the
  exception and the execution record, is the same as in the run in which the restore
  call returns.\<close>

theorem rollback_failure_absorbed_counterexample:
  "filter is_restore (calls (snd (snd run_restore_error))) \<noteq> []
   \<and> (''rollback_failed'', ''e1'') \<in> set (events (snd (snd run_restore_error)))
   \<and> (''rollback_failed'', ''e1'') \<notin> set (events (snd (snd run_restore_ok)))
   \<and> raised (fst run_restore_error) = Some rollback_call_error
   \<and> rollback_completed (final_execution (fst run_restore_error)) = None
   \<and> fst run_restore_error = fst run_restore_ok"
  by (simp add: run_restore_error_def run_restore_ok_def run_defs)

subsection \<open>Failure of the pipeline builder\<close>

lemma handle_execution_failure_no_backup:
  assumes "backup_data ctx = []"
  shows "\<exists>a b. handle_execution_failure gw ex ctx msg w =
           (ex\<lparr>exec_status := OS_FAILED, exec_error_message := Some msg\<rparr>,
            w\<lparr>calls := calls w @ [GetResourceConfig (resource_id ctx) (cloud_provider ctx)],
              events := events w @ [(''execution_failure_handling_started'', exec_id ex),
                                    (''rollback_started'', execution_id ctx), a, b]\<rparr>)"
proof (cases "get_resource_config gw (calls w) (resource_id ctx) (cloud_provider ctx)")
  case (Inl e)
  with assms have "handle_execution_failure gw ex ctx msg w =
           (ex\<lparr>exec_status := OS_FAILED, exec_error_message := Some msg\<rparr>,
            w\<lparr>calls := calls w @ [GetResourceConfig (resource_id ctx) (cloud_provider ctx)],
              events := events w @ [(''execution_failure_handling_started'', exec_id ex),
                                    (''rollback_started'', execution_id ctx),
                                    (''rollback_failed'', execution_id ctx),
                                    (''execution_rollback_failed'', exec_id ex)]\<rparr>)"
    by (simp add: handle_execution_failure_def rollback_execution_def Let_def log_event_def
          called_def call_get_resource_config_def)
  then show ?thesis by blast
next
  case (Inr cur)
  with assms have "handle_execution_failure gw ex ctx msg w =
           (ex\<lparr>exec_status := OS_FAILED, exec_error_message := Some msg\<rparr>,
            w\<lparr>calls := calls w @ [GetResourceConfig (resource_id ctx) (cloud_provider ctx)],
              events := events w @ [(''execution_failure_handling_started'', exec_id ex),
                                    (''rollback_started'', execution_id ctx),
                                    (''rollback_completed_successfully'', execution_id ctx),
                                    (''execution_failure_handling_failed'', exec_id ex)]\<rparr>)"
    by (simp add: handle_execution_failure_def rollback_execution_def Let_def log_event_def
          called_def call_get_resource_config_def verify_rollback_success_def
          OptimizationStatus_no_ROLLED_BACK)
  then show ?thesis by blast
qed

text \<open>
  Claim C8, as the code has it. The pipeline builder fails exactly when no handler is
  registered for the type of the context, and then with the \<^verbatim>\<open>ValueError\<close> of
  \<^verbatim>\<open>_get_optimization_specific_steps\<close>. When that happens in \<^verbatim>\<open>execute_optimization\<close>
  the exception reaches the caller, no step is started and nothing is tried again; the
  failure handler still runs the rollback routine, which logs \<^verbatim>\<open>rollback_started\<close>,
  issues no restore call, since no backup was taken, and only reads the configuration
  once more. The execution record ends \<^verbatim>\<open>FAILED\<close>.
\<close>

theorem pipeline_build_failure:
  "((\<exists>e. create_execution_steps hs ctx opp = Inl e) \<longleftrightarrow> hs (optimization_type ctx) = None)
   \<and> (hs (optimization_type ctx) = None
        \<longrightarrow> create_execution_steps hs ctx opp = Inl (no_handler_found (optimization_type ctx)))
   \<and> (admit gw uuid opp approver eng w = (Inr (ex, ctx), eng1, w1)
        \<and> execution_handlers eng (optimization_type ctx) = None
        \<longrightarrow> (\<exists>out w' a b.
               execute_optimization gw uuid opp approver eng w = (out, cleanup uuid eng1, w')
               \<and> raised out = Some (no_handler_found (optimization_type ctx))
               \<and> started_steps out = []
               \<and> exec_status (final_execution out) = OS_FAILED
               \<and> calls w' = calls w1 @ [GetResourceConfig (resource_id ctx) (cloud_provider ctx)]
               \<and> events w' = events w1 @
                    [(''execution_failure_handling_started'', uuid),
                     (''rollback_started'', uuid), a, b,
                     (''optimization_execution_failed'', opp_id opp)]))"
proof (intro conjI)
  show "(\<exists>e. create_execution_steps hs ctx opp = Inl e) \<longleftrightarrow> hs (optimization_type ctx) = None"
    by (auto simp: create_execution_steps_def get_optimization_specific_steps_def
        split: option.splits)
  show "hs (optimization_type ctx) = None
        \<longrightarrow> create_execution_steps hs ctx opp = Inl (no_handler_found (optimization_type ctx))"
    by (simp add: create_execution_steps_def get_optimization_specific_steps_def)
  show "admit gw uuid opp approver eng w = (Inr (ex, ctx), eng1, w1)
        \<and> execution_handlers eng (optimization_type ctx) = None
        \<longrightarrow> (\<exists>out w' a b.
               execute_optimization gw uuid opp approver eng w = (out, cleanup uuid eng1, w')
               \<and> raised out = Some (no_handler_found (optimization_type ctx))
               \<and> started_steps out = []
               \<and> exec_status (final_execution out) = OS_FAILED
               \<and> calls w' = calls w1 @ [GetResourceConfig (resource_id ctx) (cloud_provider ctx)]
               \<and> events w' = events w1 @
                    [(''execution_failure_handling_started'', uuid),
                     (''rollback_started'', uuid), a, b,
                     (''optimization_execution_failed'', opp_id opp)])"
  proof
    assume h: "admit gw uuid opp approver eng w = (Inr (ex, ctx), eng1, w1)
        \<and> execution_handlers eng (optimization_type ctx) = None"
    then have a: "admit gw uuid opp approver eng w = (Inr (ex, ctx), eng1, w1)"
      and n: "execution_handlers eng (optimization_type ctx) = None" by simp_all
    note f = admit_Inr [OF a]
    have p: "run_execution_pipeline gw (execution_handlers eng1) ctx opp w1
               = (Inl (no_handler_found (optimization_type ctx)), [], ctx, w1)"
      using n f(7)
      by (simp add: run_execution_pipeline_def create_execution_steps_def
          get_optimization_specific_steps_def)
    from handle_execution_failure_no_backup [OF f(2), of gw ex
        "str_exc (no_handler_found (optimization_type ctx))" w1]
    obtain x y where
      hf: "handle_execution_failure gw ex ctx (str_exc (no_handler_found (optimization_type ctx)))
             w1 =
           (ex\<lparr>exec_status := OS_FAILED,
               exec_error_message := Some (str_exc (no_handler_found (optimization_type ctx)))\<rparr>,
            w1\<lparr>calls := calls w1 @ [GetResourceConfig (resource_id ctx) (cloud_provider ctx)],
               events := events w1 @ [(''execution_failure_handling_started'', exec_id ex),
                                      (''rollback_started'', execution_id ctx), x, y]\<rparr>)"
      by blast
    from f(1) have i: "exec_id ex = uuid" by (simp add: new_execution_def)
    let ?out = "\<lparr>raised = Some (no_handler_found (optimization_type ctx)),
             final_execution = ex\<lparr>exec_status := OS_FAILED,
               exec_error_message := Some (str_exc (no_handler_found (optimization_type ctx)))\<rparr>,
             final_context = Some ctx, started_steps = []\<rparr>"
    let ?w = "w1\<lparr>calls := calls w1 @ [GetResourceConfig (resource_id ctx) (cloud_provider ctx)],
               events := events w1 @ [(''execution_failure_handling_started'', uuid),
                                      (''rollback_started'', uuid), x, y,
                                      (''optimization_execution_failed'', opp_id opp)]\<rparr>"
    from a p hf i f(3) f(7)
    have v: "execute_optimization gw uuid opp approver eng w = (?out, cleanup uuid eng1, ?w)"
      by (simp add: execute_optimization_def log_event_def)
    show "\<exists>out w' a b.
               execute_optimization gw uuid opp approver eng w = (out, cleanup uuid eng1, w')
               \<and> raised out = Some (no_handler_found (optimization_type ctx))
               \<and> started_steps out = []
               \<and> exec_status (final_execution out) = OS_FAILED
               \<and> calls w' = calls w1 @ [GetResourceConfig (resource_id ctx) (cloud_provider ctx)]
               \<and> events w' = events w1 @
                    [(''execution_failure_handling_started'', uuid),
                     (''rollback_started'', uuid), a, b,
                     (''optimization_execution_failed'', opp_id opp)]"
      by (rule exI [of _ ?out], rule exI [of _ ?w], rule exI [of _ x], rule exI [of _ y])
         (simp add: v)
  qed
qed

theorem pipeline_build_failure_witness:
  "fst (admit CloudProviderService ''e1'' opp_abc ''alice'' new_engine world0)
     = Inr (new_execution ''e1'' opp_abc ''alice'',
            ctx_abc\<lparr>current_config := target_config ctx_abc\<rparr>)
   \<and> execution_handlers new_engine
        (optimization_type (ctx_abc\<lparr>current_config := target_config ctx_abc\<rparr>)) = None
   \<and> raised (fst run_no_handlers)
        = Some (no_handler_found
                  (optimization_type (ctx_abc\<lparr>current_config := target_config ctx_abc\<rparr>)))
   \<and> started_steps (fst run_no_handlers) = []
   \<and> exec_status (final_execution (fst run_no_handlers)) = OS_FAILED"
proof -
  let ?ctx = "ctx_abc\<lparr>current_config := target_config ctx_abc\<rparr>"
  define eng1 where "eng1 = fst (snd (admit CloudProviderService ''e1'' opp_abc ''alice''
                                        new_engine world0))"
  define w1 where "w1 = snd (snd (admit CloudProviderService ''e1'' opp_abc ''alice''
                                        new_engine world0))"
  have f: "fst (admit CloudProviderService ''e1'' opp_abc ''alice'' new_engine world0)
     = Inr (new_execution ''e1'' opp_abc ''alice'', ?ctx)"
    by (simp add: run_defs)
  have a: "admit CloudProviderService ''e1'' opp_abc ''alice'' new_engine world0
     = (Inr (new_execution ''e1'' opp_abc ''alice'', ?ctx), eng1, w1)"
    unfolding eng1_def w1_def f [symmetric] by simp
  have n: "execution_handlers new_engine (optimization_type ?ctx) = None"
    by (simp add: new_engine_def)
  have "\<exists>out w' a b.
          execute_optimization CloudProviderService ''e1'' opp_abc ''alice'' new_engine world0
            = (out, cleanup ''e1'' eng1, w')
          \<and> raised out = Some (no_handler_found (optimization_type ?ctx))
          \<and> started_steps out = []
          \<and> exec_status (final_execution out) = OS_FAILED
          \<and> calls w' = calls w1 @ [GetResourceConfig (resource_id ?ctx) (cloud_provider ?ctx)]
          \<and> events w' = events w1 @
               [(''execution_failure_handling_started'', ''e1''),
                (''rollback_started'', ''e1''), a, b,
                (''optimization_execution_failed'', opp_id opp_abc)]"
    by (rule mp [OF conjunct2 [OF conjunct2 [OF pipeline_build_failure]] conjI [OF a n]])
  then obtain out w' where
    o: "execute_optimization CloudProviderService ''e1'' opp_abc ''alice'' new_engine world0
            = (out, cleanup ''e1'' eng1, w')"
    and p: "raised out = Some (no_handler_found (optimization_type ?ctx))"
      "started_steps out = []" "exec_status (final_execution out) = OS_FAILED"
    by blast
  from o have "fst run_no_handlers = out" by (simp add: run_no_handlers_def)
  with p f n show ?thesis by simp
qed

text \<open>Against claim C8 as stated, which has no rollback after a failure of the
  builder: on an engine without handlers the rollback routine runs and reports success,
  without a restore call.\<close>

theorem pipeline_build_failure_counterexample:
  "raised (fst run_no_handlers) = Some (no_handler_found ''rightsizing'')
   \<and> started_steps (fst run_no_handlers) = []
   \<and> (''rollback_started'', ''e1'') \<in> set (events (snd (snd run_no_handlers)))
   \<and> (''rollback_completed_successfully'', ''e1'') \<in> set (events (snd (snd run_no_handlers)))
   \<and> filter is_restore (calls (snd (snd run_no_handlers))) = []"
  by (simp add: run_no_handlers_def run_defs)

subsection \<open>Admission and cancellation\<close>

text \<open>
  Claim C1, as the code has it. \<^verbatim>\<open>execute_optimization\<close> makes no admission check:
  what it returns or raises does not depend on the executions that are registered, and
  whenever the read of the configuration succeeds the submission is registered under
  its own execution id with status \<^verbatim>\<open>RUNNING\<close>, every other entry left as it was. So
  one resource may have several \<^verbatim>\<open>RUNNING\<close> executions.
\<close>

theorem no_admission_check:
  "fst (execute_optimization gw uuid opp approver eng w)
     = fst (execute_optimization gw uuid opp approver (eng\<lparr>active_executions := Map.empty\<rparr>) w)
   \<and> (get_resource_config gw (calls w) (opp_resource_id opp)
         (CloudProvider_value (opp_cloud_provider opp)) = Inr cur
       \<longrightarrow> (\<exists>ex ctx eng1 w1.
              admit gw uuid opp approver eng w = (Inr (ex, ctx), eng1, w1)
              \<and> resource_id ctx = opp_resource_id opp
              \<and> active_executions eng1 uuid
                  = Some \<lparr>entry_execution = ex, entry_context = ctx, entry_status = RUNNING\<rparr>
              \<and> (\<forall>k. k \<noteq> uuid \<longrightarrow> active_executions eng1 k = active_executions eng k)))"
proof
  show "fst (execute_optimization gw uuid opp approver eng w)
     = fst (execute_optimization gw uuid opp approver (eng\<lparr>active_executions := Map.empty\<rparr>) w)"
  proof -
    obtain rc w1 where
      c: "create_execution_context gw opp (new_execution uuid opp approver)
            (log_event ''optimization_execution_started'' (opp_id opp) w) = (rc, w1)"
      by (metis prod.exhaust)
    show ?thesis
    proof (cases rc)
      case (Inl e)
      with c show ?thesis by (simp add: execute_optimization_def admit_def Let_def)
    next
      case (Inr ctx)
      obtain r steps ctx2 w2 where
        p: "run_execution_pipeline gw (execution_handlers eng) ctx opp w1 = (r, steps, ctx2, w2)"
        by (metis prod_cases4)
      show ?thesis
      proof (cases r)
        case (Inr u)
        with c \<open>rc = Inr ctx\<close> p show ?thesis
          by (simp add: execute_optimization_def admit_def Let_def)
      next
        case (Inl e)
        obtain ex2 w3 where
          h: "handle_execution_failure gw (new_execution uuid opp approver) ctx2 (str_exc e) w2
                = (ex2, w3)"
          by (metis prod.exhaust)
        with c \<open>rc = Inr ctx\<close> p Inl show ?thesis
          by (simp add: execute_optimization_def admit_def Let_def)
      qed
    qed
  qed
  show "get_resource_config gw (calls w) (opp_resource_id opp)
         (CloudProvider_value (opp_cloud_provider opp)) = Inr cur
       \<longrightarrow> (\<exists>ex ctx eng1 w1.
              admit gw uuid opp approver eng w = (Inr (ex, ctx), eng1, w1)
              \<and> resource_id ctx = opp_resource_id opp
              \<and> active_executions eng1 uuid
                  = Some \<lparr>entry_execution = ex, entry_context = ctx, entry_status = RUNNING\<rparr>
              \<and> (\<forall>k. k \<noteq> uuid \<longrightarrow> active_executions eng1 k = active_executions eng k))"
    by (simp add: admit_def Let_def create_execution_context_def call_get_resource_config_def
          log_event_def new_execution_def)
qed

theorem no_admission_check_witness:
  "get_resource_config CloudProviderService (calls world0) (opp_resource_id opp_abc)
         (CloudProvider_value (opp_cloud_provider opp_abc))
     = Inr (target_config ctx_abc)
   \<and> (\<exists>ex ctx eng1 w1.
         admit CloudProviderService ''e2'' opp_abc ''bob'' eng_one_running world0
           = (Inr (ex, ctx), eng1, w1)
         \<and> resource_id ctx = opp_resource_id opp_abc
         \<and> active_executions eng1 ''e2''
             = Some \<lparr>entry_execution = ex, entry_context = ctx, entry_status = RUNNING\<rparr>
         \<and> active_executions eng1 ''e1'' = active_executions eng_one_running ''e1'')"
proof -
  have g: "get_resource_config CloudProviderService (calls world0) (opp_resource_id opp_abc)
         (CloudProvider_value (opp_cloud_provider opp_abc))
     = Inr (target_config ctx_abc)"
    by (simp add: run_defs)
  from conjunct2 [OF no_admission_check [of CloudProviderService "''e2''" opp_abc "''bob''"
        eng_one_running world0 "target_config ctx_abc"]] g
  obtain ex ctx eng1 w1 where
    "admit CloudProviderService ''e2'' opp_abc ''bob'' eng_one_running world0
           = (Inr (ex, ctx), eng1, w1)"
    "resource_id ctx = opp_resource_id opp_abc"
    "active_executions eng1 ''e2''
             = Some \<lparr>entry_execution = ex, entry_context = ctx, entry_status = RUNNING\<rparr>"
    "\<forall>k. k \<noteq> ''e2'' \<longrightarrow> active_executions eng1 k = active_executions eng_one_running k"
    by blast
  with g show ?thesis by simp
qed

text \<open>Against claim C1 as stated: while \<^verbatim>\<open>e1\<close> is registered as \<^verbatim>\<open>RUNNING\<close> for
  \<^verbatim>\<open>i-abc\<close>, a second submission for \<^verbatim>\<open>i-abc\<close> is admitted, and both are then
  registered as \<^verbatim>\<open>RUNNING\<close> for the same resource.\<close>

theorem no_admission_check_counterexample:
  "map_option entry_status (active_executions eng_one_running ''e1'') = Some RUNNING
   \<and> map_option (resource_id \<circ> entry_context) (active_executions eng_one_running ''e1'')
       = Some ''i-abc''
   \<and> map_sum str_exc (resource_id \<circ> snd)
        (fst (admit CloudProviderService ''e2'' opp_abc ''bob'' eng_one_running world0))
       = Inr ''i-abc''
   \<and> map_option entry_status (active_executions eng_two_running ''e1'') = Some RUNNING
   \<and> map_option entry_status (active_executions eng_two_running ''e2'') = Some RUNNING
   \<and> map_option (resource_id \<circ> entry_context) (active_executions eng_two_running ''e1'')
       = Some ''i-abc''
   \<and> map_option (resource_id \<circ> entry_context) (active_executions eng_two_running ''e2'')
       = Some ''i-abc''"
  by (simp add: run_defs)




end
